theory Spec2Isabelle
  imports Complex_Main "HOL-Library.Word"
begin

unbundle bit_operations_syntax

section \<open>Numbers\<close>

text \<open>
  The source is \<^verbatim>\<open>src/EKF/estimator_interface.cpp\<close>. Time stamps are \<^verbatim>\<open>uint64_t\<close>
  microseconds: subtraction wraps modulo \<open>2 ^ 64\<close> and comparison is unsigned, which
  is what \<open>64 word\<close> does.
\<close>

type_synonym u8 = "8 word"
type_synonym u16 = "16 word"
type_synonym u32 = "32 word"
type_synonym u64 = "64 word"
type_synonym i32 = "32 word"

text \<open>
  Single-precision arithmetic is a parameter of the model. The type \<open>'f\<close> stands for
  \<^verbatim>\<open>float\<close> and the record below for the operations the source applies to it;
  every theorem stated for an arbitrary \<open>ops\<close> holds for IEEE-754 binary32 in
  particular. \<open>f_lit\<close> reads a decimal literal (\<^verbatim>\<open>0.8f\<close>), \<open>f_of_int\<close> is the
  conversion of an integer value (\<^verbatim>\<open>(float)x\<close>, or the implicit one in
  \<^verbatim>\<open>x / 1e6f\<close>), \<open>f_lt a b\<close> is \<^verbatim>\<open>a < b\<close> and \<open>f_le a b\<close> is \<^verbatim>\<open>a <= b\<close>
  (so \<^verbatim>\<open>a >= b\<close> is \<open>f_le b a\<close>), \<open>f_isfinite\<close> is \<^verbatim>\<open>PX4_ISFINITE\<close>.
\<close>

record 'f float_ops =
  f_lit :: "real \<Rightarrow> 'f"
  f_of_int :: "int \<Rightarrow> 'f"
  f_add :: "'f \<Rightarrow> 'f \<Rightarrow> 'f"
  f_sub :: "'f \<Rightarrow> 'f \<Rightarrow> 'f"
  f_mul :: "'f \<Rightarrow> 'f \<Rightarrow> 'f"
  f_div :: "'f \<Rightarrow> 'f \<Rightarrow> 'f"
  f_neg :: "'f \<Rightarrow> 'f"
  f_lt :: "'f \<Rightarrow> 'f \<Rightarrow> bool"
  f_le :: "'f \<Rightarrow> 'f \<Rightarrow> bool"
  f_sqrt :: "'f \<Rightarrow> 'f"
  f_isfinite :: "'f \<Rightarrow> bool"

type_synonym 'f Vector2f = "'f \<times> 'f"
type_synonym 'f Vector3f = "'f \<times> 'f \<times> 'f"
type_synonym 'f Quatf = "'f \<times> 'f \<times> 'f \<times> 'f"

text \<open>
  Modelled from the spec: \<^verbatim>\<open>mathlib\<close> and the matrix library (\<^verbatim>\<open>math::constrain\<close>,
  \<^verbatim>\<open>cross_product\<close>, the operators and \<^verbatim>\<open>norm\<close> of \<^verbatim>\<open>Vector3f\<close> and
  \<^verbatim>\<open>Vector2f\<close>) are not among the sources. \<open>constrain\<close> is the spec's clamp, the
  vector operations work component by component, and the norm is the square root of
  the sum of the squares, accumulated from zero.
\<close>

definition constrain :: "'f float_ops \<Rightarrow> 'f \<Rightarrow> 'f \<Rightarrow> 'f \<Rightarrow> 'f" where
  "constrain ops val lo hi =
     (if f_lt ops val lo then lo else if f_lt ops hi val then hi else val)"

definition vec3_zero :: "'f float_ops \<Rightarrow> 'f Vector3f" where
  "vec3_zero ops = (f_lit ops 0, f_lit ops 0, f_lit ops 0)"

definition vec2_zero :: "'f float_ops \<Rightarrow> 'f Vector2f" where
  "vec2_zero ops = (f_lit ops 0, f_lit ops 0)"

fun vec3_sub :: "'f float_ops \<Rightarrow> 'f Vector3f \<Rightarrow> 'f Vector3f \<Rightarrow> 'f Vector3f" where
  "vec3_sub ops (a0, a1, a2) (b0, b1, b2) = (f_sub ops a0 b0, f_sub ops a1 b1, f_sub ops a2 b2)"

fun vec3_neg :: "'f float_ops \<Rightarrow> 'f Vector3f \<Rightarrow> 'f Vector3f" where
  "vec3_neg ops (a0, a1, a2) = (f_neg ops a0, f_neg ops a1, f_neg ops a2)"

fun vec3_div :: "'f float_ops \<Rightarrow> 'f Vector3f \<Rightarrow> 'f \<Rightarrow> 'f Vector3f" where
  "vec3_div ops (a0, a1, a2) d = (f_div ops a0 d, f_div ops a1 d, f_div ops a2 d)"

fun vec2_neg :: "'f float_ops \<Rightarrow> 'f Vector2f \<Rightarrow> 'f Vector2f" where
  "vec2_neg ops (a0, a1) = (f_neg ops a0, f_neg ops a1)"

fun vec2_div :: "'f float_ops \<Rightarrow> 'f Vector2f \<Rightarrow> 'f \<Rightarrow> 'f Vector2f" where
  "vec2_div ops (a0, a1) d = (f_div ops a0 d, f_div ops a1 d)"

fun cross_product :: "'f float_ops \<Rightarrow> 'f Vector3f \<Rightarrow> 'f Vector3f \<Rightarrow> 'f Vector3f" where
  "cross_product ops (a0, a1, a2) (b0, b1, b2) =
     (f_sub ops (f_mul ops a1 b2) (f_mul ops a2 b1),
      f_sub ops (f_mul ops a2 b0) (f_mul ops a0 b2),
      f_sub ops (f_mul ops a0 b1) (f_mul ops a1 b0))"

fun norm3 :: "'f float_ops \<Rightarrow> 'f Vector3f \<Rightarrow> 'f" where
  "norm3 ops (a0, a1, a2) =
     f_sqrt ops (f_add ops (f_add ops (f_add ops (f_lit ops 0) (f_mul ops a0 a0)) (f_mul ops a1 a1))
                   (f_mul ops a2 a2))"

fun norm2 :: "'f float_ops \<Rightarrow> 'f Vector2f \<Rightarrow> 'f" where
  "norm2 ops (a0, a1) =
     f_sqrt ops (f_add ops (f_add ops (f_lit ops 0) (f_mul ops a0 a0)) (f_mul ops a1 a1))"

text \<open>
  The macros of \<^verbatim>\<open>common.h\<close> are not among the sources either; their values are a
  parameter of every operation that uses one.
\<close>

record macros =
  FILTER_UPDATE_PERIOD_MS :: nat
  MASK_USE_GPS :: i32
  MASK_USE_DRAG :: i32
  VDIST_SENSOR_GPS :: i32

text \<open>
  What the model treats as a fault: an integer division by zero, the conversion to
  \<^verbatim>\<open>uint8_t\<close> of a float outside its range (both undefined in C++), and
  \<^verbatim>\<open>get_oldest\<close> on a buffer that holds nothing (undefined in the spec).
\<close>

datatype fault = DivideByZero | FloatToIntRange | BufferEmpty

section \<open>Samples and driver messages\<close>

text \<open>
  Every sample type carries \<open>time_us\<close>; the other fields are those of section 3 of the
  spec. The driver messages are those of section 6.
\<close>

record timed =
  time_us :: u64

record 'f imuSample = timed +
  delta_ang :: "'f Vector3f"
  delta_vel :: "'f Vector3f"
  delta_ang_dt :: 'f
  delta_vel_dt :: 'f

record 'f magSample = timed +
  mag :: "'f Vector3f"

record 'f gpsSample = timed +
  pos :: "'f Vector2f"
  hgt :: 'f
  vel :: "'f Vector3f"
  sacc :: 'f
  hacc :: 'f
  vacc :: 'f

record 'f baroSample = timed +
  baro_hgt :: 'f

record 'f airspeedSample = timed +
  true_airspeed :: 'f
  eas2tas :: 'f

record 'f rangeSample = timed +
  rng :: 'f

record 'f flowSample = timed +
  quality :: u8
  flowRadXY :: "'f Vector2f"
  gyroXYZ :: "'f Vector3f"
  flowRadXYcomp :: "'f Vector2f"
  dt :: 'f

record 'f extVisionSample = timed +
  quat :: "'f Quatf"
  posNED :: "'f Vector3f"
  angErr :: 'f
  posErr :: 'f

record 'f auxVelSample = timed +
  velNE :: "'f Vector2f"
  velVarNE :: "'f Vector2f"

record 'f dragSample = timed +
  accelXY :: "'f Vector2f"

record 'f gps_message =
  gps_time_usec :: u64
  fix_type :: u8
  vel_ned :: "'f Vector3f"
  vel_ned_valid :: bool
  gps_sacc :: 'f
  eph :: 'f
  epv :: 'f
  alt :: int
  lat :: int
  lon :: int

record 'f flow_message =
  flowdata :: "'f Vector2f"
  gyrodata :: "'f Vector3f"
  flow_dt :: u32
  flow_quality :: u8

record 'f ext_vision_message =
  ev_quat :: "'f Quatf"
  ev_posNED :: "'f Vector3f"
  ev_angErr :: 'f
  ev_posErr :: 'f

section \<open>Ring buffer\<close>

text \<open>
  Modelled from the spec: the \<^verbatim>\<open>RingBuffer\<close> template is not among the sources.
  Section 4.1 of the spec gives its operations. A buffer is its capacity
  (\<^verbatim>\<open>get_length\<close>) and the samples pushed since its allocation, oldest first; the
  samples it retains are the last \<open>capacity\<close> of them, so a push into a full buffer
  drops the oldest one. \<^verbatim>\<open>allocate\<close> may fail: whether it does is an input
  (\<open>ok\<close>), and a failed allocation leaves the buffer as it was.
\<close>

record 'a RingBuffer =
  capacity :: nat
  history :: "'a list"

definition unallocated :: "'a RingBuffer" where
  "unallocated = \<lparr>capacity = 0, history = []\<rparr>"

definition entries :: "'a RingBuffer \<Rightarrow> 'a list" where
  "entries rb = drop (length (history rb) - capacity rb) (history rb)"

definition get_length :: "'a RingBuffer \<Rightarrow> nat" where
  "get_length rb = capacity rb"

definition allocate :: "bool \<Rightarrow> nat \<Rightarrow> 'a RingBuffer \<Rightarrow> bool \<times> 'a RingBuffer" where
  "allocate ok n rb = (if ok then (True, \<lparr>capacity = n, history = []\<rparr>) else (False, rb))"

definition unallocate :: "'a RingBuffer \<Rightarrow> 'a RingBuffer" where
  "unallocate rb = unallocated"

definition push :: "'a \<Rightarrow> 'a RingBuffer \<Rightarrow> 'a RingBuffer" where
  "push x rb = rb\<lparr>history := history rb @ [x]\<rparr>"

definition get_oldest :: "'a RingBuffer \<Rightarrow> 'a option" where
  "get_oldest rb = (case entries rb of [] \<Rightarrow> None | x # _ \<Rightarrow> Some x)"

definition read_first_older_than :: "u64 \<Rightarrow> ('a timed_scheme) RingBuffer \<Rightarrow> 'a timed_scheme option" where
  "read_first_older_than t rb =
     (case filter (\<lambda>x. time_us x \<le> t) (entries rb) of
        [] \<Rightarrow> None
      | c # cs \<Rightarrow> Some (foldl (\<lambda>b x. if time_us b \<le> time_us x then x else b) c cs))"

section \<open>Parameters and state of the interface\<close>

text \<open>
  Modelled from the spec: \<^verbatim>\<open>struct parameters\<close> and the members of
  \<^verbatim>\<open>EstimatorInterface\<close> are declared in headers that are not among the sources. The
  delays and the minimum sensor interval are unsigned 16-bit milliseconds, the type
  the source gives to their maximum (\<^verbatim>\<open>uint16_t max_time_delay_ms\<close>); the time
  stamps \<open>time_last_*\<close> and \<open>min_obs_interval_us\<close> have the type of the \<^verbatim>\<open>uint64_t\<close>
  expressions assigned to them; the buffer lengths and the counters are natural
  numbers. A member \<^verbatim>\<open>_x\<close> of the class is the field \<open>x\<close>; the member
  \<^verbatim>\<open>_imu_sample_new\<close> is \<open>member_imu_sample_new\<close>, since \<^verbatim>\<open>setIMUData\<close> has a local
  variable of that name.
\<close>

record 'f parameters =
  fusion_mode :: i32
  vdist_sensor_type :: i32
  sensor_interval_min_ms :: u16
  min_delay_ms :: u16
  mag_delay_ms :: u16
  baro_delay_ms :: u16
  gps_delay_ms :: u16
  airspeed_delay_ms :: u16
  flow_delay_ms :: u16
  range_delay_ms :: u16
  ev_delay_ms :: u16
  auxvel_delay_ms :: u16
  flow_rate_max :: 'f
  flow_qual_min :: u8

record 'f estimator =
  params :: "'f parameters"
  initialised :: bool
  imu_buffer_length :: nat
  obs_buffer_length :: nat
  min_obs_interval_us :: u64
  dt_imu_avg :: 'f
  imu_ticks :: nat
  imu_updated :: bool
  delta_ang_prev :: "'f Vector3f"
  delta_vel_prev :: "'f Vector3f"
  vibe_metrics :: "'f Vector3f"
  imu_sample_delayed :: "'f imuSample"
  member_imu_sample_new :: "'f imuSample"
  drag_sample_count :: nat
  drag_down_sampled :: "'f dragSample"
  drag_sample_time_dt :: 'f
  gps_speed_valid :: bool
  in_air :: bool
  fault_status_value :: nat
  deadreckon_time_exceeded :: bool
  time_last_imu :: u64
  time_last_gps :: u64
  time_last_mag :: u64
  time_last_baro :: u64
  time_last_range :: u64
  time_last_airspeed :: u64
  time_last_optflow :: u64
  time_last_ext_vision :: u64
  time_last_auxvel :: u64
  imu_buffer :: "'f imuSample RingBuffer"
  gps_buffer :: "'f gpsSample RingBuffer"
  mag_buffer :: "'f magSample RingBuffer"
  baro_buffer :: "'f baroSample RingBuffer"
  range_buffer :: "'f rangeSample RingBuffer"
  airspeed_buffer :: "'f airspeedSample RingBuffer"
  flow_buffer :: "'f flowSample RingBuffer"
  ext_vision_buffer :: "'f extVisionSample RingBuffer"
  output_buffer :: "timed RingBuffer"
  output_vert_buffer :: "timed RingBuffer"
  drag_buffer :: "'f dragSample RingBuffer"
  auxvel_buffer :: "'f auxVelSample RingBuffer"
  drag_buffer_fail :: bool
  mag_buffer_fail :: bool
  gps_buffer_fail :: bool
  baro_buffer_fail :: bool
  airspeed_buffer_fail :: bool
  range_buffer_fail :: bool
  flow_buffer_fail :: bool
  ev_buffer_fail :: bool
  auxvel_buffer_fail :: bool

section \<open>Initialisation\<close>

text \<open>
  \<^verbatim>\<open>unallocate_buffers\<close> (lines 575 to 590).
\<close>

definition unallocate_buffers :: "'f estimator \<Rightarrow> 'f estimator" where
  "unallocate_buffers s =
     s\<lparr>imu_buffer := unallocate (imu_buffer s),
       gps_buffer := unallocate (gps_buffer s),
       mag_buffer := unallocate (mag_buffer s),
       baro_buffer := unallocate (baro_buffer s),
       range_buffer := unallocate (range_buffer s),
       airspeed_buffer := unallocate (airspeed_buffer s),
       flow_buffer := unallocate (flow_buffer s),
       ext_vision_buffer := unallocate (ext_vision_buffer s),
       output_buffer := unallocate (output_buffer s),
       output_vert_buffer := unallocate (output_vert_buffer s),
       drag_buffer := unallocate (drag_buffer s),
       auxvel_buffer := unallocate (auxvel_buffer s)\<rparr>"

text \<open>
  \<^verbatim>\<open>initialise_interface\<close> (lines 518 to 573), in three parts: the maximum of the nine
  delays, the buffer sizing, and the allocation with the reset that follows it.

  \<^verbatim>\<open>max_time_delay_ms\<close> and \<^verbatim>\<open>ekf_delay_ms\<close> are \<^verbatim>\<open>uint16_t\<close>: the sum of the
  delay and its half is computed in \<^verbatim>\<open>int\<close> and truncated to 16 bits by the
  assignment. \<^verbatim>\<open>(float)max_time_delay_ms * 0.5f\<close> and its \<^verbatim>\<open>ceilf\<close> are exact in
  single precision for a 16-bit value, so the model computes them in the reals. Both
  divisions are integer divisions; a zero divisor is a fault.
\<close>

definition max_time_delay :: "'f parameters \<Rightarrow> u16" where
  "max_time_delay p =
     max (mag_delay_ms p)
       (max (range_delay_ms p)
         (max (gps_delay_ms p)
           (max (flow_delay_ms p)
             (max (ev_delay_ms p)
               (max (auxvel_delay_ms p)
                 (max (min_delay_ms p)
                   (max (airspeed_delay_ms p) (baro_delay_ms p))))))))"

definition ekf_delay :: "u16 \<Rightarrow> u16" where
  "ekf_delay max_time_delay_ms =
     word_of_nat (unat max_time_delay_ms + nat \<lceil>real (unat max_time_delay_ms) * 0.5\<rceil>)"

definition buffer_lengths :: "macros \<Rightarrow> 'f estimator \<Rightarrow> fault + 'f estimator" where
  "buffer_lengths k s =
     (let max_time_delay_ms = max_time_delay (params s) in
      if FILTER_UPDATE_PERIOD_MS k = 0 then Inl DivideByZero
      else
        let s1 = s\<lparr>imu_buffer_length := unat max_time_delay_ms div FILTER_UPDATE_PERIOD_MS k + 1\<rparr>;
            ekf_delay_ms = ekf_delay max_time_delay_ms
        in if sensor_interval_min_ms (params s1) = 0 then Inl DivideByZero
           else
             let s2 = s1\<lparr>obs_buffer_length :=
                          unat ekf_delay_ms div unat (sensor_interval_min_ms (params s1)) + 1\<rparr>
             in Inr (s2\<lparr>obs_buffer_length := min (obs_buffer_length s2) (imu_buffer_length s2)\<rparr>))"

definition allocate_imu_output :: "bool \<Rightarrow> bool \<Rightarrow> bool \<Rightarrow> 'f estimator \<Rightarrow> bool \<times> 'f estimator" where
  "allocate_imu_output ok_imu ok_output ok_output_vert s =
     (case allocate ok_imu (imu_buffer_length s) (imu_buffer s) of (a1, b1) \<Rightarrow>
        let s1 = s\<lparr>imu_buffer := b1\<rparr> in
        if \<not> a1 then (False, s1)
        else
          (case allocate ok_output (imu_buffer_length s1) (output_buffer s1) of (a2, b2) \<Rightarrow>
             let s2 = s1\<lparr>output_buffer := b2\<rparr> in
             if \<not> a2 then (False, s2)
             else
               (case allocate ok_output_vert (imu_buffer_length s2) (output_vert_buffer s2) of (a3, b3) \<Rightarrow>
                  (a3, s2\<lparr>output_vert_buffer := b3\<rparr>))))"

definition reset_interface :: "'f float_ops \<Rightarrow> u64 \<Rightarrow> 'f estimator \<Rightarrow> 'f estimator" where
  "reset_interface ops timestamp s =
     s\<lparr>dt_imu_avg := f_lit ops 0,
       imu_sample_delayed :=
         \<lparr>time_us = timestamp, delta_ang = vec3_zero ops, delta_vel = vec3_zero ops,
          delta_ang_dt = f_lit ops 0, delta_vel_dt = f_lit ops 0\<rparr>,
       imu_ticks := 0,
       initialised := False,
       time_last_imu := 0,
       time_last_gps := 0,
       time_last_mag := 0,
       time_last_baro := 0,
       time_last_range := 0,
       time_last_airspeed := 0,
       time_last_optflow := 0,
       fault_status_value := 0,
       time_last_ext_vision := 0\<rparr>"

definition initialise_interface ::
  "'f float_ops \<Rightarrow> macros \<Rightarrow> bool \<Rightarrow> bool \<Rightarrow> bool \<Rightarrow> u64 \<Rightarrow> 'f estimator
     \<Rightarrow> fault + bool \<times> 'f estimator" where
  "initialise_interface ops k ok_imu ok_output ok_output_vert timestamp s =
     (case buffer_lengths k s of
        Inl e \<Rightarrow> Inl e
      | Inr s1 \<Rightarrow>
          (case allocate_imu_output ok_imu ok_output ok_output_vert s1 of (ok, s2) \<Rightarrow>
             if \<not> ok then Inr (False, unallocate_buffers s2)
             else Inr (True, reset_interface ops timestamp s2)))"

section \<open>IMU intake\<close>

text \<open>
  \<^verbatim>\<open>setIMUData\<close> (lines 49 to 154), in the order of the source: the first-call
  initialisation (52 to 55), the average sample interval (57 to 63), the new sample
  and the vibration metrics (65 to 88), the push into the IMU buffer (91 to 101), and
  the down-sampling of the drag data (105 to 148).

  \<^verbatim>\<open>init\<close> and \<^verbatim>\<open>collect_imu\<close> are virtual and defined by the derived filter class;
  they are parameters. \<open>init\<close> is any function of the state. \<open>collect_imu\<close> maps the
  sample it is given to the value it returns, the sample as it leaves it (the argument
  is a reference), and the value it leaves in the member \<^verbatim>\<open>_imu_sample_new\<close>, which
  nothing in the source file writes.
\<close>

type_synonym 'f collect_imu_fn = "'f imuSample \<Rightarrow> bool \<times> 'f imuSample \<times> 'f imuSample"

definition imu_init :: "(u64 \<Rightarrow> 'f estimator \<Rightarrow> 'f estimator) \<Rightarrow> u64 \<Rightarrow> 'f estimator \<Rightarrow> 'f estimator" where
  "imu_init init time_usec s =
     (if \<not> initialised s then (init time_usec s)\<lparr>initialised := True\<rparr> else s)"

definition imu_dt :: "'f float_ops \<Rightarrow> u64 \<Rightarrow> 'f estimator \<Rightarrow> 'f" where
  "imu_dt ops time_usec s =
     constrain ops (f_div ops (f_of_int ops (uint (time_usec - time_last_imu s))) (f_lit ops 1000000))
       (f_lit ops 0.0001) (f_lit ops 0.02)"

definition imu_dt_avg :: "'f float_ops \<Rightarrow> u64 \<Rightarrow> 'f estimator \<Rightarrow> 'f estimator" where
  "imu_dt_avg ops time_usec s =
     (let dt = imu_dt ops time_usec s;
          s1 = s\<lparr>time_last_imu := time_usec\<rparr>
      in if time_last_imu s1 > 0
         then s1\<lparr>dt_imu_avg := f_add ops (f_mul ops (f_lit ops 0.8) (dt_imu_avg s1))
                                  (f_mul ops (f_lit ops 0.2) dt)\<rparr>
         else s1)"

definition new_imu_sample ::
  "'f float_ops \<Rightarrow> u64 \<Rightarrow> u64 \<Rightarrow> u64 \<Rightarrow> 'f Vector3f \<Rightarrow> 'f Vector3f \<Rightarrow> 'f imuSample" where
  "new_imu_sample ops time_usec d_ang_dt d_vel_dt d_ang d_vel =
     \<lparr>time_us = time_usec, delta_ang = d_ang, delta_vel = d_vel,
      delta_ang_dt = f_div ops (f_of_int ops (uint d_ang_dt)) (f_lit ops 1000000),
      delta_vel_dt = f_div ops (f_of_int ops (uint d_vel_dt)) (f_lit ops 1000000)\<rparr>"

definition vibe_ema :: "'f float_ops \<Rightarrow> 'f \<Rightarrow> 'f \<Rightarrow> 'f" where
  "vibe_ema ops m x = f_add ops (f_mul ops (f_lit ops 0.99) m) (f_mul ops (f_lit ops 0.01) x)"

definition imu_vibe :: "'f float_ops \<Rightarrow> 'f imuSample \<Rightarrow> 'f estimator \<Rightarrow> 'f estimator" where
  "imu_vibe ops imu_sample_new s =
     (let s1 = s\<lparr>imu_ticks := imu_ticks s + 1\<rparr>;
          temp = cross_product ops (delta_ang imu_sample_new) (delta_ang_prev s1);
          s2 = s1\<lparr>vibe_metrics := (case vibe_metrics s1 of (m0, m1, m2) \<Rightarrow>
                     (vibe_ema ops m0 (norm3 ops temp), m1, m2))\<rparr>;
          temp1 = vec3_sub ops (delta_ang imu_sample_new) (delta_ang_prev s2);
          s3 = s2\<lparr>delta_ang_prev := delta_ang imu_sample_new\<rparr>;
          s4 = s3\<lparr>vibe_metrics := (case vibe_metrics s3 of (m0, m1, m2) \<Rightarrow>
                     (m0, vibe_ema ops m1 (norm3 ops temp1), m2))\<rparr>;
          temp2 = vec3_sub ops (delta_vel imu_sample_new) (delta_vel_prev s4);
          s5 = s4\<lparr>delta_vel_prev := delta_vel imu_sample_new\<rparr>
      in s5\<lparr>vibe_metrics := (case vibe_metrics s5 of (m0, m1, m2) \<Rightarrow>
                (m0, m1, vibe_ema ops m2 (norm3 ops temp2)))\<rparr>)"

text \<open>
  Lines 92 to 101. \<^verbatim>\<open>_obs_buffer_length - 1\<close> is an \<^verbatim>\<open>int\<close>, converted to
  \<^verbatim>\<open>uint64_t\<close> for the division: a length of one divides by zero.
\<close>

definition imu_store :: "'f imuSample \<Rightarrow> 'f estimator \<Rightarrow> fault + 'f estimator" where
  "imu_store imu_sample_new s =
     (let s1 = s\<lparr>imu_buffer := push imu_sample_new (imu_buffer s), imu_ticks := 0,
                 imu_updated := True\<rparr>
      in case get_oldest (imu_buffer s1) of
           None \<Rightarrow> Inl BufferEmpty
         | Some oldest \<Rightarrow>
             let s2 = s1\<lparr>imu_sample_delayed := oldest\<rparr>;
                 divisor = (word_of_int (int (obs_buffer_length s2) - 1) :: u64)
             in if divisor = 0 then Inl DivideByZero
                else Inr (s2\<lparr>min_obs_interval_us :=
                            (time_us (member_imu_sample_new s2) - time_us (imu_sample_delayed s2))
                              div divisor\<rparr>))"

text \<open>
  Lines 125 to 129. The quotient of the two lengths and its \<^verbatim>\<open>ceilf\<close> are exact in
  single precision for lengths below \<open>2 ^ 16\<close> (the lengths \<^verbatim>\<open>initialise_interface\<close>
  computes), so the model computes them in the reals. The conversion to \<^verbatim>\<open>uint8_t\<close>
  is defined only for a value below 256, and a zero divisor gives no finite value.
\<close>

definition drag_min_sample_ratio :: "nat \<Rightarrow> nat \<Rightarrow> fault + nat" where
  "drag_min_sample_ratio imu_len obs_len =
     (if obs_len = 0 then Inl FloatToIntRange
      else
        let r = nat \<lceil>real imu_len / real obs_len\<rceil> in
        if 255 < r then Inl FloatToIntRange
        else Inr (if r < 5 then 5 else r))"

definition drag_accumulate :: "'f float_ops \<Rightarrow> 'f imuSample \<Rightarrow> 'f estimator \<Rightarrow> 'f estimator" where
  "drag_accumulate ops imu_sample_new s =
     (let s1 = s\<lparr>drag_sample_count := drag_sample_count s + 1\<rparr>;
          acc = drag_down_sampled s1
      in s1\<lparr>drag_down_sampled :=
              acc\<lparr>accelXY := (f_add ops (fst (accelXY acc)) (fst (delta_vel imu_sample_new)),
                               f_add ops (snd (accelXY acc)) (fst (snd (delta_vel imu_sample_new)))),
                  time_us := time_us acc + time_us imu_sample_new\<rparr>,
            drag_sample_time_dt := f_add ops (drag_sample_time_dt s1) (delta_vel_dt imu_sample_new)\<rparr>)"

definition drag_mean :: "'f float_ops \<Rightarrow> 'f estimator \<Rightarrow> 'f dragSample" where
  "drag_mean ops s =
     (let acc = drag_down_sampled s in
      acc\<lparr>accelXY := (f_div ops (fst (accelXY acc)) (drag_sample_time_dt s),
                       f_div ops (snd (accelXY acc)) (drag_sample_time_dt s)),
          time_us := time_us acc div word_of_nat (drag_sample_count s)\<rparr>)"

definition drag_emit :: "'f float_ops \<Rightarrow> 'f estimator \<Rightarrow> fault + 'f estimator" where
  "drag_emit ops s =
     (if (word_of_nat (drag_sample_count s) :: u64) = 0 then Inl DivideByZero
      else
        let s1 = s\<lparr>drag_down_sampled := drag_mean ops s\<rparr>;
            s2 = s1\<lparr>drag_buffer := push (drag_down_sampled s1) (drag_buffer s1)\<rparr>
        in Inr (s2\<lparr>drag_sample_count := 0,
                   drag_down_sampled := (drag_down_sampled s2)\<lparr>accelXY := vec2_zero ops, time_us := 0\<rparr>,
                   drag_sample_time_dt := f_lit ops 0\<rparr>))"

definition drag_downsample ::
  "'f float_ops \<Rightarrow> macros \<Rightarrow> bool \<Rightarrow> 'f imuSample \<Rightarrow> 'f estimator \<Rightarrow> fault + 'f estimator" where
  "drag_downsample ops k alloc_ok imu_sample_new s =
     (if (fusion_mode (params s) AND MASK_USE_DRAG k) \<noteq> 0 \<and> \<not> drag_buffer_fail s then
        let s1 = (if get_length (drag_buffer s) < obs_buffer_length s
                  then (case allocate alloc_ok (obs_buffer_length s) (drag_buffer s) of (ok, b) \<Rightarrow>
                          s\<lparr>drag_buffer := b, drag_buffer_fail := \<not> ok\<rparr>)
                  else s)
        in if drag_buffer_fail s1 then Inr s1
           else
             let s2 = drag_accumulate ops imu_sample_new s1 in
             (case drag_min_sample_ratio (imu_buffer_length s2) (obs_buffer_length s2) of
                Inl e \<Rightarrow> Inl e
              | Inr min_sample_ratio \<Rightarrow>
                  if drag_sample_count s2 \<ge> min_sample_ratio then drag_emit ops s2 else Inr s2)
      else Inr s)"

definition setIMUData ::
  "'f float_ops \<Rightarrow> macros \<Rightarrow> (u64 \<Rightarrow> 'f estimator \<Rightarrow> 'f estimator) \<Rightarrow> 'f collect_imu_fn \<Rightarrow> bool
     \<Rightarrow> u64 \<Rightarrow> u64 \<Rightarrow> u64 \<Rightarrow> 'f Vector3f \<Rightarrow> 'f Vector3f \<Rightarrow> 'f estimator \<Rightarrow> fault + 'f estimator" where
  "setIMUData ops k init collect_imu alloc_ok time_usec d_ang_dt d_vel_dt d_ang d_vel s =
     (let s1 = imu_dt_avg ops time_usec (imu_init init time_usec s);
          s2 = imu_vibe ops (new_imu_sample ops time_usec d_ang_dt d_vel_dt d_ang d_vel) s1
      in case collect_imu (new_imu_sample ops time_usec d_ang_dt d_vel_dt d_ang d_vel) of
           (ready, imu_sample_new, member_new) \<Rightarrow>
             let s3 = s2\<lparr>member_imu_sample_new := member_new\<rparr> in
             if ready then
               (case imu_store imu_sample_new s3 of
                  Inl e \<Rightarrow> Inl e
                | Inr s4 \<Rightarrow> drag_downsample ops k alloc_ok imu_sample_new s4)
             else Inr (s3\<lparr>imu_updated := False\<rparr>))"

section \<open>Observation intake\<close>

text \<open>
  \<^verbatim>\<open>_params.mag_delay_ms * 1000\<close> and \<^verbatim>\<open>FILTER_UPDATE_PERIOD_MS * 1000 / 2\<close> are
  \<^verbatim>\<open>int\<close> expressions, converted to \<^verbatim>\<open>uint64_t\<close> when they are subtracted from a
  time stamp.
\<close>

definition delay_us :: "u16 \<Rightarrow> u64" where
  "delay_us delay_ms = word_of_nat (unat delay_ms * 1000)"

definition half_period_us :: "macros \<Rightarrow> u64" where
  "half_period_us k = word_of_nat (FILTER_UPDATE_PERIOD_MS k * 1000 div 2)"

text \<open>
  Each intake routine takes \<open>alloc_ok\<close>, the result \<^verbatim>\<open>allocate\<close> gives if the routine
  calls it.

  \<^verbatim>\<open>setMagData\<close> (lines 156 to 185).
\<close>

definition setMagData ::
  "macros \<Rightarrow> bool \<Rightarrow> u64 \<Rightarrow> 'f Vector3f \<Rightarrow> 'f estimator \<Rightarrow> 'f estimator" where
  "setMagData k alloc_ok time_usec data s =
     (if \<not> initialised s \<or> mag_buffer_fail s then s
      else
        let s1 = (if get_length (mag_buffer s) < obs_buffer_length s
                  then (case allocate alloc_ok (obs_buffer_length s) (mag_buffer s) of (ok, b) \<Rightarrow>
                          s\<lparr>mag_buffer := b, mag_buffer_fail := \<not> ok\<rparr>)
                  else s)
        in if mag_buffer_fail s1 then s1
           else if time_usec - time_last_mag s1 > min_obs_interval_us s1 then
             let mag_sample_new =
                   \<lparr>time_us = time_usec - delay_us (mag_delay_ms (params s1)) - half_period_us k,
                    mag = data\<rparr>
             in s1\<lparr>time_last_mag := time_usec,
                   mag_buffer := push mag_sample_new (mag_buffer s1)\<rparr>
           else s1)"

text \<open>
  \<^verbatim>\<open>setGpsData\<close> (lines 187 to 238). \<^verbatim>\<open>collect_gps\<close> is virtual and
  \<^verbatim>\<open>map_projection_project\<close> belongs to the geo library: both are parameters.
  \<open>collect_gps time_usec gps\<close> is the value the call returns;
  \<open>map_projection_project (lat gps) (lon gps)\<close> is the pair the projection leaves in
  \<^verbatim>\<open>lpos_x\<close> and \<^verbatim>\<open>lpos_y\<close> for the origin in force, the division of the latitude
  and the longitude by \<^verbatim>\<open>1.0e7\<close> included.
\<close>

definition setGpsData ::
  "'f float_ops \<Rightarrow> macros \<Rightarrow> bool \<Rightarrow> (u64 \<Rightarrow> 'f gps_message \<Rightarrow> bool) \<Rightarrow> (int \<Rightarrow> int \<Rightarrow> 'f \<times> 'f)
     \<Rightarrow> u64 \<Rightarrow> 'f gps_message \<Rightarrow> 'f estimator \<Rightarrow> 'f estimator" where
  "setGpsData ops k alloc_ok collect_gps map_projection_project time_usec gps s =
     (if \<not> initialised s \<or> gps_buffer_fail s then s
      else
        let s1 = (if get_length (gps_buffer s) < obs_buffer_length s
                  then (case allocate alloc_ok (obs_buffer_length s) (gps_buffer s) of (ok, b) \<Rightarrow>
                          s\<lparr>gps_buffer := b, gps_buffer_fail := \<not> ok\<rparr>)
                  else s)
        in if gps_buffer_fail s1 then s1
           else
             let need_gps = ((fusion_mode (params s1) AND MASK_USE_GPS k) \<noteq> 0
                              \<or> vdist_sensor_type (params s1) = VDIST_SENSOR_GPS k)
             in if time_usec - time_last_gps s1 > min_obs_interval_us s1 \<and> need_gps \<and> fix_type gps > 2
                then
                  let gps_sample_new =
                        \<lparr>time_us = max (gps_time_usec gps - delay_us (gps_delay_ms (params s1))
                                          - half_period_us k)
                                       (time_us (imu_sample_delayed s1)),
                         pos = (if collect_gps time_usec gps
                                then map_projection_project (lat gps) (lon gps)
                                else (f_lit ops 0, f_lit ops 0)),
                         hgt = f_mul ops (f_of_int ops (alt gps)) (f_lit ops 0.001),
                         vel = vel_ned gps,
                         sacc = gps_sacc gps,
                         hacc = eph gps,
                         vacc = epv gps\<rparr>
                  in s1\<lparr>time_last_gps := time_usec,
                        gps_speed_valid := vel_ned_valid gps,
                        gps_buffer := push gps_sample_new (gps_buffer s1)\<rparr>
                else s1)"

text \<open>
  \<^verbatim>\<open>setBaroData\<close> (lines 240 to 270).
\<close>

definition setBaroData ::
  "macros \<Rightarrow> bool \<Rightarrow> u64 \<Rightarrow> 'f \<Rightarrow> 'f estimator \<Rightarrow> 'f estimator" where
  "setBaroData k alloc_ok time_usec data s =
     (if \<not> initialised s \<or> baro_buffer_fail s then s
      else
        let s1 = (if get_length (baro_buffer s) < obs_buffer_length s
                  then (case allocate alloc_ok (obs_buffer_length s) (baro_buffer s) of (ok, b) \<Rightarrow>
                          s\<lparr>baro_buffer := b, baro_buffer_fail := \<not> ok\<rparr>)
                  else s)
        in if baro_buffer_fail s1 then s1
           else if time_usec - time_last_baro s1 > min_obs_interval_us s1 then
             let baro_sample_new =
                   \<lparr>time_us = max (time_usec - delay_us (baro_delay_ms (params s1)) - half_period_us k)
                                  (time_us (imu_sample_delayed s1)),
                    baro_hgt = data\<rparr>
             in s1\<lparr>time_last_baro := time_usec,
                   baro_buffer := push baro_sample_new (baro_buffer s1)\<rparr>
           else s1)"

text \<open>
  \<^verbatim>\<open>setAirspeedData\<close> (lines 272 to 299).
\<close>

definition setAirspeedData ::
  "macros \<Rightarrow> bool \<Rightarrow> u64 \<Rightarrow> 'f \<Rightarrow> 'f \<Rightarrow> 'f estimator \<Rightarrow> 'f estimator" where
  "setAirspeedData k alloc_ok time_usec tas e2t s =
     (if \<not> initialised s \<or> airspeed_buffer_fail s then s
      else
        let s1 = (if get_length (airspeed_buffer s) < obs_buffer_length s
                  then (case allocate alloc_ok (obs_buffer_length s) (airspeed_buffer s) of (ok, b) \<Rightarrow>
                          s\<lparr>airspeed_buffer := b, airspeed_buffer_fail := \<not> ok\<rparr>)
                  else s)
        in if airspeed_buffer_fail s1 then s1
           else if time_usec - time_last_airspeed s1 > min_obs_interval_us s1 then
             let airspeed_sample_new =
                   \<lparr>time_us = time_usec - delay_us (airspeed_delay_ms (params s1)) - half_period_us k,
                    true_airspeed = tas, eas2tas = e2t\<rparr>
             in s1\<lparr>time_last_airspeed := time_usec,
                   airspeed_buffer := push airspeed_sample_new (airspeed_buffer s1)\<rparr>
           else s1)"

text \<open>
  \<^verbatim>\<open>setRangeData\<close> (lines 301 to 326).
\<close>

definition setRangeData ::
  "bool \<Rightarrow> u64 \<Rightarrow> 'f \<Rightarrow> 'f estimator \<Rightarrow> 'f estimator" where
  "setRangeData alloc_ok time_usec data s =
     (if \<not> initialised s \<or> range_buffer_fail s then s
      else
        let s1 = (if get_length (range_buffer s) < obs_buffer_length s
                  then (case allocate alloc_ok (obs_buffer_length s) (range_buffer s) of (ok, b) \<Rightarrow>
                          s\<lparr>range_buffer := b, range_buffer_fail := \<not> ok\<rparr>)
                  else s)
        in if range_buffer_fail s1 then s1
           else if time_usec - time_last_range s1 > min_obs_interval_us s1 then
             let range_sample_new =
                   \<lparr>time_us = time_usec - delay_us (range_delay_ms (params s1)), rng = data\<rparr>
             in s1\<lparr>time_last_range := time_usec,
                   range_buffer := push range_sample_new (range_buffer s1)\<rparr>
           else s1)"

text \<open>
  \<^verbatim>\<open>setExtVisionData\<close> (lines 450 to 484).
\<close>

definition setExtVisionData ::
  "bool \<Rightarrow> u64 \<Rightarrow> 'f ext_vision_message \<Rightarrow> 'f estimator \<Rightarrow> 'f estimator" where
  "setExtVisionData alloc_ok time_usec evdata s =
     (if \<not> initialised s \<or> ev_buffer_fail s then s
      else
        let s1 = (if get_length (ext_vision_buffer s) < obs_buffer_length s
                  then (case allocate alloc_ok (obs_buffer_length s) (ext_vision_buffer s) of (ok, b) \<Rightarrow>
                          s\<lparr>ext_vision_buffer := b, ev_buffer_fail := \<not> ok\<rparr>)
                  else s)
        in if ev_buffer_fail s1 then s1
           else if time_usec - time_last_ext_vision s1 > min_obs_interval_us s1 then
             let ev_sample_new =
                   \<lparr>time_us = time_usec - delay_us (ev_delay_ms (params s1)),
                    quat = ev_quat evdata, posNED = ev_posNED evdata,
                    angErr = ev_angErr evdata, posErr = ev_posErr evdata\<rparr>
             in s1\<lparr>time_last_ext_vision := time_usec,
                   ext_vision_buffer := push ev_sample_new (ext_vision_buffer s1)\<rparr>
           else s1)"

text \<open>
  \<^verbatim>\<open>setAuxVelData\<close> (lines 486 to 516).
\<close>

definition setAuxVelData ::
  "macros \<Rightarrow> bool \<Rightarrow> u64 \<Rightarrow> 'f Vector2f \<Rightarrow> 'f Vector2f \<Rightarrow> 'f estimator \<Rightarrow> 'f estimator" where
  "setAuxVelData k alloc_ok time_usec data variance s =
     (if \<not> initialised s \<or> auxvel_buffer_fail s then s
      else
        let s1 = (if get_length (auxvel_buffer s) < obs_buffer_length s
                  then (case allocate alloc_ok (obs_buffer_length s) (auxvel_buffer s) of (ok, b) \<Rightarrow>
                          s\<lparr>auxvel_buffer := b, auxvel_buffer_fail := \<not> ok\<rparr>)
                  else s)
        in if auxvel_buffer_fail s1 then s1
           else if time_usec - time_last_auxvel s1 > min_obs_interval_us s1 then
             let auxvel_sample_new =
                   \<lparr>time_us = time_usec - delay_us (auxvel_delay_ms (params s1)) - half_period_us k,
                    velNE = data, velVarNE = variance\<rparr>
             in s1\<lparr>time_last_auxvel := time_usec,
                   auxvel_buffer := push auxvel_sample_new (auxvel_buffer s1)\<rparr>
           else s1)"

section \<open>Optical flow intake\<close>

text \<open>
  \<^verbatim>\<open>setOpticalFlowData\<close> (lines 329 to 447): the checks of lines 349 to 372, the test
  of line 387, the sample of lines 373 to 441, and the routine.

  \<open>uninit\<close> is the content of the local \<^verbatim>\<open>matching_imu_sample\<close> before anything is
  written to it: \<^verbatim>\<open>read_first_older_than\<close> leaves it so when it finds no sample.
\<close>

definition flow_delta_time_min :: "'f float_ops \<Rightarrow> 'f estimator \<Rightarrow> 'f" where
  "flow_delta_time_min ops s =
     f_mul ops (f_lit ops 0.0000005) (f_of_int ops (uint (min_obs_interval_us s)))"

definition flow_delta_time_good :: "'f float_ops \<Rightarrow> 'f flow_message \<Rightarrow> 'f estimator \<Rightarrow> bool" where
  "flow_delta_time_good ops flow s =
     f_le ops (flow_delta_time_min ops s)
       (f_mul ops (f_lit ops 0.000001) (f_of_int ops (uint (flow_dt flow))))"

definition flow_delta_time :: "'f float_ops \<Rightarrow> 'f flow_message \<Rightarrow> 'f estimator \<Rightarrow> 'f" where
  "flow_delta_time ops flow s =
     (if \<not> flow_delta_time_good ops flow s then flow_delta_time_min ops s
      else f_mul ops (f_lit ops 0.000001) (f_of_int ops (uint (flow_dt flow))))"

definition flow_magnitude_good :: "'f float_ops \<Rightarrow> 'f flow_message \<Rightarrow> 'f estimator \<Rightarrow> bool" where
  "flow_magnitude_good ops flow s =
     (if flow_delta_time_good ops flow s
      then f_le ops (f_div ops (norm2 ops (flowdata flow)) (flow_delta_time ops flow s))
             (flow_rate_max (params s))
      else True)"

definition flow_quality_good :: "'f flow_message \<Rightarrow> 'f estimator \<Rightarrow> bool" where
  "flow_quality_good flow s = (flow_quality flow \<ge> flow_qual_min (params s))"

definition flow_accepted :: "'f float_ops \<Rightarrow> 'f flow_message \<Rightarrow> 'f estimator \<Rightarrow> bool" where
  "flow_accepted ops flow s =
     ((flow_delta_time_good ops flow s \<and> flow_quality_good flow s \<and> flow_magnitude_good ops flow s)
      \<or> \<not> in_air s)"

definition flow_no_gyro :: "'f float_ops \<Rightarrow> 'f flow_message \<Rightarrow> bool" where
  "flow_no_gyro ops flow =
     (case gyrodata flow of (g0, g1, g2) \<Rightarrow>
        \<not> f_isfinite ops g0 \<and> \<not> f_isfinite ops g1 \<and> \<not> f_isfinite ops g2)"

definition flow_time_us :: "u64 \<Rightarrow> 'f flow_message \<Rightarrow> 'f estimator \<Rightarrow> u64" where
  "flow_time_us time_usec flow s =
     time_usec - delay_us (flow_delay_ms (params s)) - ucast (flow_dt flow div 2)"

definition flow_matching_imu ::
  "'f imuSample \<Rightarrow> u64 \<Rightarrow> 'f flow_message \<Rightarrow> 'f estimator \<Rightarrow> 'f imuSample" where
  "flow_matching_imu uninit time_usec flow s =
     (case read_first_older_than (flow_time_us time_usec flow s) (imu_buffer s) of
        None \<Rightarrow> uninit
      | Some m \<Rightarrow> m)"

definition optflow_sample ::
  "'f float_ops \<Rightarrow> 'f imuSample \<Rightarrow> u64 \<Rightarrow> 'f flow_message \<Rightarrow> 'f estimator \<Rightarrow> 'f flowSample" where
  "optflow_sample ops uninit time_usec flow s =
     (let delta_time = flow_delta_time ops flow s;
          no_gyro = flow_no_gyro ops flow;
          matching_imu_sample = flow_matching_imu uninit time_usec flow s;
          matching_gyro_sample =
            vec3_div ops (delta_ang matching_imu_sample) (delta_ang_dt matching_imu_sample);
          gyro = (if no_gyro then matching_gyro_sample else vec3_neg ops (gyrodata flow));
          rad = (if flow_quality_good flow s
                 then (if no_gyro then vec2_div ops (flowdata flow) delta_time
                       else vec2_neg ops (flowdata flow))
                 else (if no_gyro
                       then (f_neg ops (fst matching_gyro_sample),
                             f_neg ops (fst (snd matching_gyro_sample)))
                       else (f_neg ops (fst (gyrodata flow)),
                             f_neg ops (fst (snd (gyrodata flow))))));
          comp = (if no_gyro
                  then (f_mul ops (f_add ops (fst rad) (fst gyro)) delta_time,
                        f_mul ops (f_add ops (snd rad) (fst (snd gyro))) delta_time)
                  else (f_sub ops (fst rad) (fst gyro),
                        f_sub ops (snd rad) (fst (snd gyro))));
          gyro_out = (if no_gyro
                      then (f_mul ops (fst gyro) (delta_ang_dt matching_imu_sample),
                            f_mul ops (fst (snd gyro)) (delta_ang_dt matching_imu_sample),
                            snd (snd gyro))
                      else gyro)
      in \<lparr>time_us = flow_time_us time_usec flow s,
          quality = flow_quality flow,
          flowRadXY = rad,
          gyroXYZ = gyro_out,
          flowRadXYcomp = comp,
          dt = delta_time\<rparr>)"

definition setOpticalFlowData ::
  "'f float_ops \<Rightarrow> bool \<Rightarrow> 'f imuSample \<Rightarrow> u64 \<Rightarrow> 'f flow_message \<Rightarrow> 'f estimator \<Rightarrow> 'f estimator" where
  "setOpticalFlowData ops alloc_ok uninit time_usec flow s =
     (if \<not> initialised s \<or> flow_buffer_fail s then s
      else
        let s1 = (if get_length (flow_buffer s) < obs_buffer_length s
                  then (case allocate alloc_ok (obs_buffer_length s) (flow_buffer s) of (ok, b) \<Rightarrow>
                          s\<lparr>flow_buffer := b, flow_buffer_fail := \<not> ok\<rparr>)
                  else s)
        in if flow_buffer_fail s1 then s1
           else if time_usec - time_last_optflow s1 > min_obs_interval_us s1 then
             (if flow_accepted ops flow s1 then
                s1\<lparr>time_last_optflow := time_usec,
                   flow_buffer := push (optflow_sample ops uninit time_usec flow s1) (flow_buffer s1)\<rparr>
              else s1)
           else s1)"

text \<open>
  \<^verbatim>\<open>local_position_is_valid\<close> (lines 592 to 596).
\<close>

definition local_position_is_valid :: "'f estimator \<Rightarrow> bool" where
  "local_position_is_valid s = (\<not> deadreckon_time_exceeded s)"

section \<open>Sequences of intake calls\<close>

text \<open>
  One call of an intake routine with everything the call depends on from outside the
  interface: the driver's data, and the results of the allocator and of the virtual
  functions in that call.
\<close>

record 'f imu_call =
  imu_collect :: "'f collect_imu_fn"
  imu_alloc_ok :: bool
  imu_time_usec :: u64
  imu_delta_ang_dt :: u64
  imu_delta_vel_dt :: u64
  imu_delta_ang :: "'f Vector3f"
  imu_delta_vel :: "'f Vector3f"

datatype 'f intake_call =
    IMUData "'f imu_call"
  | MagData bool u64 "'f Vector3f"
  | GpsData bool "u64 \<Rightarrow> 'f gps_message \<Rightarrow> bool" "int \<Rightarrow> int \<Rightarrow> 'f \<times> 'f" u64 "'f gps_message"
  | BaroData bool u64 'f
  | AirspeedData bool u64 'f 'f
  | RangeData bool u64 'f
  | OpticalFlowData bool "'f imuSample" u64 "'f flow_message"
  | ExtVisionData bool u64 "'f ext_vision_message"
  | AuxVelData bool u64 "'f Vector2f" "'f Vector2f"

definition setIMUData_call ::
  "'f float_ops \<Rightarrow> macros \<Rightarrow> (u64 \<Rightarrow> 'f estimator \<Rightarrow> 'f estimator) \<Rightarrow> 'f imu_call \<Rightarrow> 'f estimator
     \<Rightarrow> fault + 'f estimator" where
  "setIMUData_call ops k init c s =
     setIMUData ops k init (imu_collect c) (imu_alloc_ok c) (imu_time_usec c) (imu_delta_ang_dt c)
       (imu_delta_vel_dt c) (imu_delta_ang c) (imu_delta_vel c) s"

fun intake ::
  "'f float_ops \<Rightarrow> macros \<Rightarrow> (u64 \<Rightarrow> 'f estimator \<Rightarrow> 'f estimator) \<Rightarrow> 'f intake_call \<Rightarrow> 'f estimator
     \<Rightarrow> fault + 'f estimator" where
  "intake ops k init (IMUData c) s = setIMUData_call ops k init c s"
| "intake ops k init (MagData a t d) s = Inr (setMagData k a t d s)"
| "intake ops k init (GpsData a cg mp t g) s = Inr (setGpsData ops k a cg mp t g s)"
| "intake ops k init (BaroData a t d) s = Inr (setBaroData k a t d s)"
| "intake ops k init (AirspeedData a t v e) s = Inr (setAirspeedData k a t v e s)"
| "intake ops k init (RangeData a t d) s = Inr (setRangeData a t d s)"
| "intake ops k init (OpticalFlowData a u t f) s = Inr (setOpticalFlowData ops a u t f s)"
| "intake ops k init (ExtVisionData a t e) s = Inr (setExtVisionData a t e s)"
| "intake ops k init (AuxVelData a t d v) s = Inr (setAuxVelData k a t d v s)"

fun run ::
  "'f float_ops \<Rightarrow> macros \<Rightarrow> (u64 \<Rightarrow> 'f estimator \<Rightarrow> 'f estimator) \<Rightarrow> 'f intake_call list
     \<Rightarrow> 'f estimator \<Rightarrow> fault + 'f estimator" where
  "run ops k init [] s = Inr s"
| "run ops k init (c # cs) s =
     (case intake ops k init c s of Inl e \<Rightarrow> Inl e | Inr s1 \<Rightarrow> run ops k init cs s1)"

text \<open>
  The time stamps a sequence of calls presents to one sensor, in the order of the
  calls. For GPS it is the driver's \<^verbatim>\<open>gps->time_usec\<close> that is back-dated and stored.
\<close>

fun mag_time :: "'f intake_call \<Rightarrow> u64 option" where
  "mag_time (MagData a t d) = Some t"
| "mag_time _ = None"

fun airspeed_time :: "'f intake_call \<Rightarrow> u64 option" where
  "airspeed_time (AirspeedData a t v e) = Some t"
| "airspeed_time _ = None"

fun range_time :: "'f intake_call \<Rightarrow> u64 option" where
  "range_time (RangeData a t d) = Some t"
| "range_time _ = None"

fun ext_vision_time :: "'f intake_call \<Rightarrow> u64 option" where
  "ext_vision_time (ExtVisionData a t e) = Some t"
| "ext_vision_time _ = None"

fun auxvel_time :: "'f intake_call \<Rightarrow> u64 option" where
  "auxvel_time (AuxVelData a t d v) = Some t"
| "auxvel_time _ = None"

fun flow_time :: "'f intake_call \<Rightarrow> u64 option" where
  "flow_time (OpticalFlowData a u t f) = Some t"
| "flow_time _ = None"

definition presented :: "('f intake_call \<Rightarrow> u64 option) \<Rightarrow> 'f intake_call list \<Rightarrow> u64 list" where
  "presented sensor cs = List.map_filter sensor cs"

definition time_ordered :: "('a timed_scheme) RingBuffer \<Rightarrow> bool" where
  "time_ordered rb = sorted (map time_us (history rb))"

section \<open>The drag down-sampler as the spec words it\<close>











section \<open>An exact arithmetic to run the model with\<close>

text \<open>
  An instance of the arithmetic for concrete runs of the model: real numbers with one
  extra value for every non-finite result (an infinity or a NaN), which no comparison
  holds of.
\<close>

datatype xfloat = Fin real | NonFinite

fun x_bin :: "(real \<Rightarrow> real \<Rightarrow> real) \<Rightarrow> xfloat \<Rightarrow> xfloat \<Rightarrow> xfloat" where
  "x_bin h (Fin a) (Fin b) = Fin (h a b)"
| "x_bin h _ _ = NonFinite"

fun x_div :: "xfloat \<Rightarrow> xfloat \<Rightarrow> xfloat" where
  "x_div (Fin a) (Fin b) = (if b = 0 then NonFinite else Fin (a / b))"
| "x_div _ _ = NonFinite"

fun x_un :: "(real \<Rightarrow> real) \<Rightarrow> xfloat \<Rightarrow> xfloat" where
  "x_un h (Fin a) = Fin (h a)"
| "x_un h NonFinite = NonFinite"

fun x_rel :: "(real \<Rightarrow> real \<Rightarrow> bool) \<Rightarrow> xfloat \<Rightarrow> xfloat \<Rightarrow> bool" where
  "x_rel r (Fin a) (Fin b) = r a b"
| "x_rel r _ _ = False"

fun x_isfinite :: "xfloat \<Rightarrow> bool" where
  "x_isfinite (Fin a) = True"
| "x_isfinite NonFinite = False"

definition exact_ops :: "xfloat float_ops" where
  "exact_ops =
     \<lparr>f_lit = Fin, f_of_int = (\<lambda>i. Fin (of_int i)),
      f_add = x_bin (+), f_sub = x_bin (-), f_mul = x_bin (*), f_div = x_div,
      f_neg = x_un uminus, f_lt = x_rel (<), f_le = x_rel (\<le>), f_sqrt = x_un sqrt,
      f_isfinite = x_isfinite\<rparr>"

definition example_macros :: macros where
  "example_macros =
     \<lparr>FILTER_UPDATE_PERIOD_MS = 12, MASK_USE_GPS = 1, MASK_USE_DRAG = 32, VDIST_SENSOR_GPS = 1\<rparr>"

definition example_params :: "xfloat parameters" where
  "example_params =
     \<lparr>fusion_mode = 1, vdist_sensor_type = 0, sensor_interval_min_ms = 20, min_delay_ms = 0,
      mag_delay_ms = 0, baro_delay_ms = 0, gps_delay_ms = 110, airspeed_delay_ms = 100,
      flow_delay_ms = 5, range_delay_ms = 5, ev_delay_ms = 175, auxvel_delay_ms = 0,
      flow_rate_max = Fin 2.5, flow_qual_min = 1\<rparr>"

definition zero3 :: "xfloat Vector3f" where
  "zero3 = (Fin 0, Fin 0, Fin 0)"

definition zero2 :: "xfloat Vector2f" where
  "zero2 = (Fin 0, Fin 0)"

definition imu_at :: "u64 \<Rightarrow> xfloat imuSample" where
  "imu_at t = \<lparr>time_us = t, delta_ang = zero3, delta_vel = zero3, delta_ang_dt = Fin 0,
               delta_vel_dt = Fin 0\<rparr>"

text \<open>
  The state of a fresh object: nothing allocated, every number zero, every flag false.
\<close>

definition blank :: "xfloat estimator" where
  "blank =
     \<lparr>params = example_params, initialised = False, imu_buffer_length = 0, obs_buffer_length = 0,
      min_obs_interval_us = 0, dt_imu_avg = Fin 0, imu_ticks = 0, imu_updated = False,
      delta_ang_prev = zero3, delta_vel_prev = zero3, vibe_metrics = zero3,
      imu_sample_delayed = imu_at 0, member_imu_sample_new = imu_at 0,
      drag_sample_count = 0, drag_down_sampled = \<lparr>time_us = 0, accelXY = zero2\<rparr>,
      drag_sample_time_dt = Fin 0, gps_speed_valid = False, in_air = False,
      fault_status_value = 0, deadreckon_time_exceeded = False,
      time_last_imu = 0, time_last_gps = 0, time_last_mag = 0, time_last_baro = 0,
      time_last_range = 0, time_last_airspeed = 0, time_last_optflow = 0,
      time_last_ext_vision = 0, time_last_auxvel = 0,
      imu_buffer = unallocated, gps_buffer = unallocated, mag_buffer = unallocated,
      baro_buffer = unallocated, range_buffer = unallocated, airspeed_buffer = unallocated,
      flow_buffer = unallocated, ext_vision_buffer = unallocated, output_buffer = unallocated,
      output_vert_buffer = unallocated, drag_buffer = unallocated, auxvel_buffer = unallocated,
      drag_buffer_fail = False, mag_buffer_fail = False, gps_buffer_fail = False,
      baro_buffer_fail = False, airspeed_buffer_fail = False, range_buffer_fail = False,
      flow_buffer_fail = False, ev_buffer_fail = False, auxvel_buffer_fail = False\<rparr>"

text \<open>
  The state after a successful initialisation with the example parameters and a first
  IMU call: lengths 15 and 14, the IMU buffer allocated, an observation interval of
  20 ms.
\<close>

definition running :: "xfloat estimator" where
  "running =
     blank\<lparr>initialised := True, imu_buffer_length := 15, obs_buffer_length := 14,
           min_obs_interval_us := 20000,
           imu_buffer := \<lparr>capacity = 15, history = []\<rparr>,
           output_buffer := \<lparr>capacity = 15, history = []\<rparr>,
           output_vert_buffer := \<lparr>capacity = 15, history = []\<rparr>\<rparr>"

definition init_by_interface :: "u64 \<Rightarrow> xfloat estimator \<Rightarrow> xfloat estimator" where
  "init_by_interface timestamp s =
     (case initialise_interface exact_ops example_macros True True True timestamp s of
        Inl e \<Rightarrow> s
      | Inr (ok, s1) \<Rightarrow> s1)"

definition not_ready :: "xfloat collect_imu_fn" where
  "not_ready imu = (False, imu, imu)"

definition ready :: "xfloat collect_imu_fn" where
  "ready imu = (True, imu, imu)"

definition imu_call_at :: "xfloat collect_imu_fn \<Rightarrow> bool \<Rightarrow> u64 \<Rightarrow> xfloat imu_call" where
  "imu_call_at c a t =
     \<lparr>imu_collect = c, imu_alloc_ok = a, imu_time_usec = t, imu_delta_ang_dt = 4000,
      imu_delta_vel_dt = 4000, imu_delta_ang = zero3, imu_delta_vel = (Fin 1, Fin 2, Fin 3)\<rparr>"

text \<open>
  Inputs for runs of the observation intake: a GPS message with a 3D fix, a filter
  whose origin is not set, a projection, and a state whose fusion horizon (the
  delayed IMU sample) is at one second.
\<close>

definition example_gps :: "xfloat gps_message" where
  "example_gps =
     \<lparr>gps_time_usec = 500000, fix_type = 3, vel_ned = zero3, vel_ned_valid = True,
      gps_sacc = Fin 0, eph = Fin 0, epv = Fin 0, alt = 100000, lat = 0, lon = 0\<rparr>"

definition no_origin :: "u64 \<Rightarrow> xfloat gps_message \<Rightarrow> bool" where
  "no_origin t g = False"

definition project_one :: "int \<Rightarrow> int \<Rightarrow> xfloat \<times> xfloat" where
  "project_one la lo = (Fin 1, Fin 1)"

definition late_horizon :: "xfloat estimator" where
  "late_horizon = running\<lparr>imu_sample_delayed := imu_at 1000000\<rparr>"

text \<open>
  A running state with every observation buffer allocated and the last accepted sample
  of every sensor at 1 ms, and messages for the flow and the vision intake.
\<close>

definition allocated :: "xfloat estimator" where
  "allocated =
     running\<lparr>time_last_gps := 1000, time_last_mag := 1000, time_last_baro := 1000,
             time_last_range := 1000, time_last_airspeed := 1000, time_last_optflow := 1000,
             time_last_ext_vision := 1000, time_last_auxvel := 1000,
             gps_buffer := \<lparr>capacity = 14, history = []\<rparr>,
             mag_buffer := \<lparr>capacity = 14, history = []\<rparr>,
             baro_buffer := \<lparr>capacity = 14, history = []\<rparr>,
             range_buffer := \<lparr>capacity = 14, history = []\<rparr>,
             airspeed_buffer := \<lparr>capacity = 14, history = []\<rparr>,
             flow_buffer := \<lparr>capacity = 14, history = []\<rparr>,
             ext_vision_buffer := \<lparr>capacity = 14, history = []\<rparr>,
             auxvel_buffer := \<lparr>capacity = 14, history = []\<rparr>\<rparr>"

definition example_flow :: "xfloat flow_message" where
  "example_flow = \<lparr>flowdata = (Fin 0.01, Fin 0), gyrodata = (NonFinite, Fin 1, Fin 2),
     flow_dt = 20000, flow_quality = 200\<rparr>"


text \<open>
  A configuration with a delay of 50 s.
\<close>

definition long_delay :: "xfloat estimator" where
  "long_delay = blank\<lparr>params := example_params\<lparr>min_delay_ms := 50000\<rparr>\<rparr>"

text \<open>
  Inputs for runs of the optical-flow intake: a flow message with no gyro data at all
  (\<open>example_flow\<close> lacks one component only), and a state on the ground whose IMU
  buffer holds one sample, at 50 ms, with a rotation of 0.01 rad about x in 0.01 s.
\<close>

definition no_gyro_flow :: "xfloat flow_message" where
  "no_gyro_flow = example_flow\<lparr>gyrodata := (NonFinite, NonFinite, NonFinite)\<rparr>"

definition turning :: "xfloat imuSample" where
  "turning = \<lparr>time_us = 50000, delta_ang = (Fin 0.01, Fin 0, Fin 0), delta_vel = zero3,
     delta_ang_dt = Fin 0.01, delta_vel_dt = Fin 0.01\<rparr>"

definition flow_ready :: "xfloat estimator" where
  "flow_ready = allocated\<lparr>imu_buffer := \<lparr>capacity = 15, history = [turning]\<rparr>\<rparr>"

text \<open>
  The state of the drag down-sampler: the allocation latch, the buffer and the three
  accumulators.
\<close>

definition drag_state ::
  "'f estimator \<Rightarrow> bool \<times> 'f dragSample RingBuffer \<times> nat \<times> 'f dragSample \<times> 'f" where
  "drag_state s =
     (drag_buffer_fail s, drag_buffer s, drag_sample_count s, drag_down_sampled s,
      drag_sample_time_dt s)"

text \<open>
  A running state with drag fusion requested besides GPS, its drag buffer not yet
  allocated.
\<close>

definition drag_requested :: "xfloat estimator" where
  "drag_requested = running\<lparr>params := example_params\<lparr>fusion_mode := 33\<rparr>\<rparr>"




section \<open>Facts about the buffers and the example states\<close>

lemmas example_defs = running_def blank_def unallocated_def example_macros_def example_params_def
  zero2_def zero3_def imu_at_def

lemma push_neq [simp]: "push x rb \<noteq> rb"
proof
  assume "push x rb = rb"
  then have "history (push x rb) = history rb" by simp
  then show False by (simp add: push_def)
qed

lemma late_horizon_fields:
  "history (gps_buffer late_horizon) = []" "history (baro_buffer late_horizon) = []"
  "history (auxvel_buffer late_horizon) = []" "params late_horizon = example_params"
  "time_us (imu_sample_delayed late_horizon) = 1000000"
  by (simp_all add: late_horizon_def example_defs)

lemma gps_late:
  "history (gps_buffer (setGpsData exact_ops example_macros True no_origin project_one 500000
      example_gps late_horizon))
   = [\<lparr>time_us = 1000000, pos = (Fin 0, Fin 0), hgt = Fin 100, vel = zero3, sacc = Fin 0,
       hacc = Fin 0, vacc = Fin 0\<rparr>]"
  by (simp add: setGpsData_def late_horizon_def example_defs example_gps_def no_origin_def
        exact_ops_def get_length_def allocate_def push_def delay_us_def half_period_us_def Let_def)

lemma baro_late:
  "history (baro_buffer (setBaroData example_macros True 500000 (Fin 0) late_horizon))
   = [\<lparr>time_us = 1000000, baro_hgt = Fin 0\<rparr>]"
  by (simp add: setBaroData_def late_horizon_def example_defs
        get_length_def allocate_def push_def delay_us_def half_period_us_def Let_def)

lemma auxvel_late:
  "history (auxvel_buffer (setAuxVelData example_macros True 500000 zero2 zero2 late_horizon))
   = [\<lparr>time_us = 494000, velNE = zero2, velVarNE = zero2\<rparr>]"
  by (simp add: setAuxVelData_def late_horizon_def example_defs
        get_length_def allocate_def push_def delay_us_def half_period_us_def Let_def)

section \<open>C1: the clamp to the delayed IMU time\<close>

text \<open>
  C1, as amended. A sample that \<^verbatim>\<open>setGpsData\<close> or \<^verbatim>\<open>setBaroData\<close> pushes carries the
  back-dated time clamped from below by \<^verbatim>\<open>_imu_sample_delayed.time_us\<close>, so it is
  never older than the delayed IMU sample. \<^verbatim>\<open>setAuxVelData\<close> has no clamp: the sample
  it pushes carries \<^verbatim>\<open>time_usec - auxvel_delay_ms * 1000 - FILTER_UPDATE_PERIOD_MS * 1000 / 2\<close>
  as it is. A routine has pushed a sample when the history of its buffer has changed
  and is not empty (a lazy allocation alone leaves it empty).
\<close>

theorem C1_clamp_gps_baro_only:
  "(history (gps_buffer (setGpsData ops k a cg mp t g s)) \<noteq> history (gps_buffer s)
      \<and> history (gps_buffer (setGpsData ops k a cg mp t g s)) \<noteq> []
     \<longrightarrow> time_us (last (history (gps_buffer (setGpsData ops k a cg mp t g s))))
           = max (gps_time_usec g - delay_us (gps_delay_ms (params s)) - half_period_us k)
                 (time_us (imu_sample_delayed s))
         \<and> time_us (imu_sample_delayed (setGpsData ops k a cg mp t g s))
             \<le> time_us (last (history (gps_buffer (setGpsData ops k a cg mp t g s)))))
   \<and> (history (baro_buffer (setBaroData k a t d s)) \<noteq> history (baro_buffer s)
      \<and> history (baro_buffer (setBaroData k a t d s)) \<noteq> []
     \<longrightarrow> time_us (last (history (baro_buffer (setBaroData k a t d s))))
           = max (t - delay_us (baro_delay_ms (params s)) - half_period_us k)
                 (time_us (imu_sample_delayed s))
         \<and> time_us (imu_sample_delayed (setBaroData k a t d s))
             \<le> time_us (last (history (baro_buffer (setBaroData k a t d s)))))
   \<and> (history (auxvel_buffer (setAuxVelData k a t v w s)) \<noteq> history (auxvel_buffer s)
      \<and> history (auxvel_buffer (setAuxVelData k a t v w s)) \<noteq> []
     \<longrightarrow> time_us (last (history (auxvel_buffer (setAuxVelData k a t v w s))))
           = t - delay_us (auxvel_delay_ms (params s)) - half_period_us k)"
proof (intro conjI)
  show "history (gps_buffer (setGpsData ops k a cg mp t g s)) \<noteq> history (gps_buffer s)
      \<and> history (gps_buffer (setGpsData ops k a cg mp t g s)) \<noteq> []
     \<longrightarrow> time_us (last (history (gps_buffer (setGpsData ops k a cg mp t g s))))
           = max (gps_time_usec g - delay_us (gps_delay_ms (params s)) - half_period_us k)
                 (time_us (imu_sample_delayed s))
         \<and> time_us (imu_sample_delayed (setGpsData ops k a cg mp t g s))
             \<le> time_us (last (history (gps_buffer (setGpsData ops k a cg mp t g s))))"
    by (auto simp: setGpsData_def Let_def allocate_def push_def get_length_def split: if_splits)
  show "history (baro_buffer (setBaroData k a t d s)) \<noteq> history (baro_buffer s)
      \<and> history (baro_buffer (setBaroData k a t d s)) \<noteq> []
     \<longrightarrow> time_us (last (history (baro_buffer (setBaroData k a t d s))))
           = max (t - delay_us (baro_delay_ms (params s)) - half_period_us k)
                 (time_us (imu_sample_delayed s))
         \<and> time_us (imu_sample_delayed (setBaroData k a t d s))
             \<le> time_us (last (history (baro_buffer (setBaroData k a t d s))))"
    by (auto simp: setBaroData_def Let_def allocate_def push_def get_length_def split: if_splits)
  show "history (auxvel_buffer (setAuxVelData k a t v w s)) \<noteq> history (auxvel_buffer s)
      \<and> history (auxvel_buffer (setAuxVelData k a t v w s)) \<noteq> []
     \<longrightarrow> time_us (last (history (auxvel_buffer (setAuxVelData k a t v w s))))
           = t - delay_us (auxvel_delay_ms (params s)) - half_period_us k"
    by (auto simp: setAuxVelData_def Let_def allocate_def push_def get_length_def split: if_splits)
qed

text \<open>
  The three routines at \<open>late_horizon\<close>, each given a sample stamped half a second: GPS
  and baro store the horizon, one second; aux-velocity stores 494 ms.
\<close>

theorem C1_clamp_witness:
  "time_us (last (history (gps_buffer (setGpsData exact_ops example_macros True no_origin project_one
       500000 example_gps late_horizon)))) = 1000000
   \<and> time_us (last (history (baro_buffer (setBaroData example_macros True 500000 (Fin 0)
       late_horizon)))) = 1000000
   \<and> time_us (last (history (auxvel_buffer (setAuxVelData example_macros True 500000 zero2 zero2
       late_horizon)))) = 494000"
  using C1_clamp_gps_baro_only [of exact_ops example_macros True no_origin project_one 500000
      example_gps late_horizon "Fin 0" zero2 zero2]
  by (simp add: gps_late baro_late auxvel_late late_horizon_fields)

text \<open>
  The claim as stated fails for aux-velocity: the sample pushed is older than the
  delayed IMU sample.
\<close>

theorem C1_auxvel_counterexample:
  "time_us (last (history (auxvel_buffer (setAuxVelData example_macros True 500000 zero2 zero2
       late_horizon))))
     < time_us (imu_sample_delayed (setAuxVelData example_macros True 500000 zero2 zero2
         late_horizon))"
  by (simp add: setAuxVelData_def late_horizon_def example_defs
        get_length_def allocate_def push_def delay_us_def half_period_us_def Let_def)

section \<open>C3: the rate limit\<close>










lemma allocated_fields:
  "initialised allocated" "\<not> mag_buffer_fail allocated" "\<not> baro_buffer_fail allocated"
  "\<not> airspeed_buffer_fail allocated" "\<not> range_buffer_fail allocated" "\<not> ev_buffer_fail allocated"
  "\<not> auxvel_buffer_fail allocated" "\<not> gps_buffer_fail allocated" "\<not> flow_buffer_fail allocated"
  "obs_buffer_length allocated = 14" "min_obs_interval_us allocated = 20000"
  "get_length (mag_buffer allocated) = 14" "get_length (baro_buffer allocated) = 14"
  "get_length (airspeed_buffer allocated) = 14" "get_length (range_buffer allocated) = 14"
  "get_length (ext_vision_buffer allocated) = 14" "get_length (auxvel_buffer allocated) = 14"
  "get_length (gps_buffer allocated) = 14" "get_length (flow_buffer allocated) = 14"
  "time_last_mag allocated = 1000" "time_last_baro allocated = 1000"
  "time_last_airspeed allocated = 1000" "time_last_range allocated = 1000"
  "time_last_ext_vision allocated = 1000" "time_last_auxvel allocated = 1000"
  "time_last_gps allocated = 1000" "time_last_optflow allocated = 1000"
  by (simp_all add: allocated_def example_defs get_length_def)



section \<open>C5: the buffer lengths\<close>

lemma max_time_delay_Max:
  "max_time_delay p =
     Max {mag_delay_ms p, range_delay_ms p, gps_delay_ms p, flow_delay_ms p, ev_delay_ms p,
          auxvel_delay_ms p, min_delay_ms p, airspeed_delay_ms p, baro_delay_ms p}"
  by (simp only: max_time_delay_def Max_insert finite_insert finite.emptyI insert_not_empty
        Max_singleton not_False_eq_True)

lemma half_ceiling: "nat \<lceil>real n * 0.5\<rceil> = (n + 1) div 2"
proof (cases "even n")
  case True
  then obtain j where "n = 2 * j" by (auto elim: evenE)
  then show ?thesis by simp
next
  case False
  then obtain j where j: "n = 2 * j + 1" by (auto elim: oddE)
  have "\<lceil>real n * 0.5\<rceil> = int j + 1"
    unfolding j by (rule ceiling_unique) simp_all
  then show ?thesis using j by simp
qed

lemma unat_ekf_delay:
  "unat (ekf_delay m) = (unat m + nat \<lceil>real (unat m) * 0.5\<rceil>) mod 65536"
  unfolding ekf_delay_def by (simp only: unat_of_nat) simp

lemma unat_ekf_delay_small:
  "unat m \<le> 43690 \<Longrightarrow> unat (ekf_delay m) = unat m + nat \<lceil>real (unat m) * 0.5\<rceil>"
  unfolding unat_ekf_delay half_ceiling by simp

lemma buffer_lengths_Inr:
  assumes "FILTER_UPDATE_PERIOD_MS k \<noteq> 0" and "sensor_interval_min_ms (params s) \<noteq> 0"
  shows "\<exists>s1. buffer_lengths k s = Inr s1
     \<and> imu_buffer_length s1 = unat (max_time_delay (params s)) div FILTER_UPDATE_PERIOD_MS k + 1
     \<and> obs_buffer_length s1 =
         min (imu_buffer_length s1)
           (unat (ekf_delay (max_time_delay (params s))) div unat (sensor_interval_min_ms (params s)) + 1)"
  using assms by (simp add: buffer_lengths_def Let_def min.commute)

lemma allocate_imu_output_lengths:
  "allocate_imu_output o1 o2 o3 s = (ok, s2) \<Longrightarrow>
   imu_buffer_length s2 = imu_buffer_length s \<and> obs_buffer_length s2 = obs_buffer_length s"
  by (auto simp: allocate_imu_output_def allocate_def Let_def split: if_splits)

lemma initialise_interface_lengths:
  assumes "buffer_lengths k s = Inr s1"
  shows "\<exists>ok s'. initialise_interface ops k o1 o2 o3 timestamp s = Inr (ok, s')
     \<and> imu_buffer_length s' = imu_buffer_length s1 \<and> obs_buffer_length s' = obs_buffer_length s1"
proof -
  obtain ok s2 where al: "allocate_imu_output o1 o2 o3 s1 = (ok, s2)"
    by (cases "allocate_imu_output o1 o2 o3 s1") auto
  note len2 = allocate_imu_output_lengths [OF al]
  show ?thesis
  proof (cases ok)
    case True
    then have "initialise_interface ops k o1 o2 o3 timestamp s = Inr (True, reset_interface ops timestamp s2)"
      using al by (simp add: initialise_interface_def assms)
    moreover have "imu_buffer_length (reset_interface ops timestamp s2) = imu_buffer_length s2"
      "obs_buffer_length (reset_interface ops timestamp s2) = obs_buffer_length s2"
      by (simp_all add: reset_interface_def)
    ultimately show ?thesis using len2 by auto
  next
    case False
    then have "initialise_interface ops k o1 o2 o3 timestamp s = Inr (False, unallocate_buffers s2)"
      using al by (simp add: initialise_interface_def assms)
    moreover have "imu_buffer_length (unallocate_buffers s2) = imu_buffer_length s2"
      "obs_buffer_length (unallocate_buffers s2) = obs_buffer_length s2"
      by (simp_all add: unallocate_buffers_def)
    ultimately show ?thesis using len2 by auto
  qed
qed

text \<open>
  C5, with the slip the code makes. With a non-zero update period and a non-zero
  minimum sensor interval, \<^verbatim>\<open>initialise_interface\<close> returns (whether or not the
  allocation succeeds) with \<open>imu_buffer_length = max_delay_ms div FILTER_UPDATE_PERIOD_MS + 1\<close>
  and \<open>obs_buffer_length = min imu_buffer_length (ekf_delay_ms div sensor_interval_min_ms + 1)\<close>,
  where \<open>max_delay_ms\<close> is the maximum of the nine delays. When \<open>max_delay_ms\<close> is at most
  43690, \<open>ekf_delay_ms\<close> is \<open>max_delay_ms + ceil (max_delay_ms * 0.5)\<close>, as the claim
  has it and as the comment of line 535 announces (a 50% extension). Above that the
  sum does not fit \<^verbatim>\<open>uint16_t ekf_delay_ms\<close> of line 536, and the variable holds the
  sum less 65536: there the code departs from the claim and from its own comment.
\<close>

theorem C5_buffer_sizing:
  assumes "FILTER_UPDATE_PERIOD_MS k \<noteq> 0" and "sensor_interval_min_ms (params s) \<noteq> 0"
  shows "\<exists>ok s'. initialise_interface ops k o1 o2 o3 timestamp s = Inr (ok, s')
     \<and> imu_buffer_length s' = unat (max_time_delay (params s)) div FILTER_UPDATE_PERIOD_MS k + 1
     \<and> obs_buffer_length s' =
         min (imu_buffer_length s')
           (unat (ekf_delay (max_time_delay (params s))) div unat (sensor_interval_min_ms (params s)) + 1)
     \<and> unat (ekf_delay (max_time_delay (params s))) =
         (unat (max_time_delay (params s)) + nat \<lceil>real (unat (max_time_delay (params s))) * 0.5\<rceil>)
           mod 65536
     \<and> (unat (max_time_delay (params s)) \<le> 43690 \<longrightarrow>
          unat (ekf_delay (max_time_delay (params s))) =
            unat (max_time_delay (params s)) + nat \<lceil>real (unat (max_time_delay (params s))) * 0.5\<rceil>)
     \<and> max_time_delay (params s) =
         Max {mag_delay_ms (params s), range_delay_ms (params s), gps_delay_ms (params s),
              flow_delay_ms (params s), ev_delay_ms (params s), auxvel_delay_ms (params s),
              min_delay_ms (params s), airspeed_delay_ms (params s), baro_delay_ms (params s)}"
proof -
  obtain s1 where s1: "buffer_lengths k s = Inr s1"
    and i1: "imu_buffer_length s1 = unat (max_time_delay (params s)) div FILTER_UPDATE_PERIOD_MS k + 1"
    and o1: "obs_buffer_length s1 =
         min (imu_buffer_length s1)
           (unat (ekf_delay (max_time_delay (params s))) div unat (sensor_interval_min_ms (params s)) + 1)"
    using buffer_lengths_Inr [OF assms] by blast
  obtain ok s' where r: "initialise_interface ops k o1 o2 o3 timestamp s = Inr (ok, s')"
    and i': "imu_buffer_length s' = imu_buffer_length s1"
    and o': "obs_buffer_length s' = obs_buffer_length s1"
    using initialise_interface_lengths [OF s1] by blast
  have "imu_buffer_length s' = unat (max_time_delay (params s)) div FILTER_UPDATE_PERIOD_MS k + 1"
    using i' i1 by simp
  moreover have "obs_buffer_length s' =
         min (imu_buffer_length s')
           (unat (ekf_delay (max_time_delay (params s))) div unat (sensor_interval_min_ms (params s)) + 1)"
    using o' o1 i' by simp
  ultimately show ?thesis
    using r unat_ekf_delay [of "max_time_delay (params s)"]
      unat_ekf_delay_small [of "max_time_delay (params s)"]
      max_time_delay_Max [of "params s"]
    by blast
qed

lemma max_time_delay_example: "max_time_delay example_params = 175"
  by (simp add: max_time_delay_def example_params_def)

lemma max_time_delay_long: "max_time_delay (params long_delay) = 50000"
  by (simp add: max_time_delay_def long_delay_def example_params_def)

lemma init_by_interface_eq:
  "initialise_interface exact_ops example_macros True True True timestamp s = Inr (ok, s')
   \<Longrightarrow> init_by_interface timestamp s = s'"
  by (simp add: init_by_interface_def)

text \<open>
  Scenario S1 of the spec: a maximum delay of 175 ms, an update period of 12 ms and a
  minimum sensor interval of 20 ms give the lengths 15 and 14 and a delay of 263 ms.
\<close>

theorem C5_buffer_sizing_witness:
  "max_time_delay example_params = 175
   \<and> imu_buffer_length (init_by_interface 0 blank) = 15
   \<and> unat (ekf_delay (max_time_delay example_params)) = 263
   \<and> obs_buffer_length (init_by_interface 0 blank) = 14"
proof -
  have p: "params blank = example_params" by (simp add: blank_def)
  have h1: "FILTER_UPDATE_PERIOD_MS example_macros \<noteq> 0" by (simp add: example_macros_def)
  have h2: "sensor_interval_min_ms (params blank) \<noteq> 0" by (simp add: p example_params_def)
  have h3: "unat (max_time_delay (params blank)) \<le> 43690" by (simp add: p max_time_delay_example)
  from C5_buffer_sizing [OF h1 h2, of exact_ops True True True 0] h3
  obtain ok s' where r: "initialise_interface exact_ops example_macros True True True 0 blank = Inr (ok, s')"
    and i: "imu_buffer_length s' = unat (max_time_delay (params blank)) div FILTER_UPDATE_PERIOD_MS example_macros + 1"
    and ob: "obs_buffer_length s' =
         min (imu_buffer_length s')
           (unat (ekf_delay (max_time_delay (params blank))) div unat (sensor_interval_min_ms (params blank)) + 1)"
    and e: "unat (ekf_delay (max_time_delay (params blank))) =
            unat (max_time_delay (params blank)) + nat \<lceil>real (unat (max_time_delay (params blank))) * 0.5\<rceil>"
    by blast
  have s': "init_by_interface 0 blank = s'" by (rule init_by_interface_eq [OF r])
  have e': "unat (ekf_delay (max_time_delay example_params)) = 263"
    using e by (simp add: p max_time_delay_example)
  have i': "imu_buffer_length s' = 15"
    using i by (simp add: p max_time_delay_example example_macros_def)
  have o': "obs_buffer_length s' = 14"
    using ob e' by (simp add: i' p example_params_def)
  show ?thesis using s' e' i' o' max_time_delay_example by simp
qed

text \<open>
  The code at a delay of 50 s: the sum 75000 does not fit \<^verbatim>\<open>uint16_t ekf_delay_ms\<close>,
  which holds 9464.
\<close>

theorem C5_ekf_delay_truncated:
  "unat (max_time_delay (params long_delay))
     + nat \<lceil>real (unat (max_time_delay (params long_delay))) * 0.5\<rceil> = 75000
   \<and> unat (ekf_delay (max_time_delay (params long_delay))) = 9464"
  by (simp add: max_time_delay_long unat_ekf_delay)

section \<open>C7: the gates of the GPS intake\<close>

text \<open>
  C7. \<^verbatim>\<open>setGpsData\<close> pushes a sample only when GPS is needed (the fusion mode has the
  GPS bit, or the vertical-distance sensor is GPS), the fix type is above 2 and the
  rate limit passes. When all of that holds (and the buffer is allocated or its
  allocation succeeds) a sample is pushed whether or not \<^verbatim>\<open>collect_gps\<close> reports the
  origin: without the origin its position is \<open>(0, 0)\<close>, with it the projection.
\<close>

theorem C7_gps_gating:
  assumes "s' = setGpsData ops k a cg mp t g s"
  shows
    "(history (gps_buffer s') \<noteq> history (gps_buffer s) \<and> history (gps_buffer s') \<noteq> [] \<longrightarrow>
        ((fusion_mode (params s) AND MASK_USE_GPS k) \<noteq> 0
           \<or> vdist_sensor_type (params s) = VDIST_SENSOR_GPS k)
        \<and> 2 < fix_type g \<and> min_obs_interval_us s < t - time_last_gps s)
     \<and> (initialised s \<and> \<not> gps_buffer_fail s
         \<and> (obs_buffer_length s \<le> get_length (gps_buffer s) \<or> a)
         \<and> min_obs_interval_us s < t - time_last_gps s
         \<and> ((fusion_mode (params s) AND MASK_USE_GPS k) \<noteq> 0
              \<or> vdist_sensor_type (params s) = VDIST_SENSOR_GPS k)
         \<and> 2 < fix_type g \<longrightarrow>
        history (gps_buffer s') =
          (if obs_buffer_length s \<le> get_length (gps_buffer s) then history (gps_buffer s) else [])
            @ [last (history (gps_buffer s'))]
        \<and> pos (last (history (gps_buffer s'))) =
            (if cg t g then mp (lat g) (lon g) else (f_lit ops 0, f_lit ops 0)))"
proof (intro conjI)
  show "history (gps_buffer s') \<noteq> history (gps_buffer s) \<and> history (gps_buffer s') \<noteq> [] \<longrightarrow>
        ((fusion_mode (params s) AND MASK_USE_GPS k) \<noteq> 0
           \<or> vdist_sensor_type (params s) = VDIST_SENSOR_GPS k)
        \<and> 2 < fix_type g \<and> min_obs_interval_us s < t - time_last_gps s"
    unfolding assms
    by (auto simp: setGpsData_def Let_def allocate_def push_def get_length_def split: if_splits)
  show "initialised s \<and> \<not> gps_buffer_fail s
         \<and> (obs_buffer_length s \<le> get_length (gps_buffer s) \<or> a)
         \<and> min_obs_interval_us s < t - time_last_gps s
         \<and> ((fusion_mode (params s) AND MASK_USE_GPS k) \<noteq> 0
              \<or> vdist_sensor_type (params s) = VDIST_SENSOR_GPS k)
         \<and> 2 < fix_type g \<longrightarrow>
        history (gps_buffer s') =
          (if obs_buffer_length s \<le> get_length (gps_buffer s) then history (gps_buffer s) else [])
            @ [last (history (gps_buffer s'))]
        \<and> pos (last (history (gps_buffer s'))) =
            (if cg t g then mp (lat g) (lon g) else (f_lit ops 0, f_lit ops 0))"
    unfolding assms
    by (auto simp: setGpsData_def Let_def allocate_def push_def get_length_def)
qed

lemma late_horizon_gps:
  "initialised late_horizon" "\<not> gps_buffer_fail late_horizon"
  "min_obs_interval_us late_horizon = 20000" "time_last_gps late_horizon = 0"
  "fusion_mode example_params = 1" "MASK_USE_GPS example_macros = 1" "fix_type example_gps = 3"
  "\<not> no_origin t g"
  by (simp_all add: late_horizon_def example_defs example_gps_def no_origin_def)

text \<open>
  Scenario S3 of the spec: a 3D fix with the GPS bit set and no origin is pushed with
  the position \<open>(0, 0)\<close>.
\<close>

theorem C7_gps_gating_witness:
  "(fusion_mode (params late_horizon) AND MASK_USE_GPS example_macros) \<noteq> 0
   \<and> 2 < fix_type example_gps
   \<and> \<not> no_origin 500000 example_gps
   \<and> length (history (gps_buffer (setGpsData exact_ops example_macros True no_origin project_one
        500000 example_gps late_horizon))) = 1
   \<and> pos (last (history (gps_buffer (setGpsData exact_ops example_macros True no_origin project_one
        500000 example_gps late_horizon)))) = (Fin 0, Fin 0)"
  using C7_gps_gating [of "setGpsData exact_ops example_macros True no_origin project_one
        500000 example_gps late_horizon" exact_ops example_macros True no_origin project_one
        500000 example_gps late_horizon]
  by (simp add: gps_late late_horizon_fields late_horizon_gps)

section \<open>What each stage of the IMU intake changes\<close>

lemma imu_dt_avg_frame:
  "imu_dt_avg ops t s = s\<lparr>time_last_imu := t, dt_imu_avg := dt_imu_avg (imu_dt_avg ops t s)\<rparr>"
  by (simp add: imu_dt_avg_def Let_def)

lemma imu_vibe_frame:
  "imu_vibe ops x s =
     s\<lparr>imu_ticks := imu_ticks s + 1, vibe_metrics := vibe_metrics (imu_vibe ops x s),
       delta_ang_prev := delta_ang x, delta_vel_prev := delta_vel x\<rparr>"
  by (simp add: imu_vibe_def Let_def split: prod.splits)

lemma imu_store_frame:
  assumes "imu_store x s = Inr s'"
  shows "s' = s\<lparr>imu_buffer := push x (imu_buffer s), imu_ticks := 0, imu_updated := True,
               imu_sample_delayed := imu_sample_delayed s',
               min_obs_interval_us := min_obs_interval_us s'\<rparr>"
  using assms by (auto simp: imu_store_def Let_def split: option.splits if_splits)

lemma drag_emit_frame:
  assumes "drag_emit ops s = Inr s'"
  shows "s' = s\<lparr>drag_buffer := drag_buffer s', drag_sample_count := drag_sample_count s',
               drag_down_sampled := drag_down_sampled s',
               drag_sample_time_dt := drag_sample_time_dt s'\<rparr>"
  using assms by (auto simp: drag_emit_def Let_def split: if_splits)


lemma drag_downsample_frame:
  assumes "drag_downsample ops k a x s = Inr s'"
  shows "s' = s\<lparr>drag_buffer := drag_buffer s', drag_buffer_fail := drag_buffer_fail s',
               drag_sample_count := drag_sample_count s',
               drag_down_sampled := drag_down_sampled s',
               drag_sample_time_dt := drag_sample_time_dt s'\<rparr>"
  using assms
  by (auto simp: drag_downsample_def drag_emit_def drag_accumulate_def Let_def allocate_def
        split: if_splits sum.splits)

lemma setIMUData_cases:
  assumes "setIMUData ops k init c a t d1 d2 v1 v2 s = Inr s'"
  obtains (idle) "\<not> fst (c (new_imu_sample ops t d1 d2 v1 v2))"
      "s' = (imu_vibe ops (new_imu_sample ops t d1 d2 v1 v2) (imu_dt_avg ops t (imu_init init t s)))
              \<lparr>member_imu_sample_new := snd (snd (c (new_imu_sample ops t d1 d2 v1 v2))),
               imu_updated := False\<rparr>"
  | (stored) s4 where "fst (c (new_imu_sample ops t d1 d2 v1 v2))"
      "imu_store (fst (snd (c (new_imu_sample ops t d1 d2 v1 v2))))
         ((imu_vibe ops (new_imu_sample ops t d1 d2 v1 v2) (imu_dt_avg ops t (imu_init init t s)))
              \<lparr>member_imu_sample_new := snd (snd (c (new_imu_sample ops t d1 d2 v1 v2)))\<rparr>) = Inr s4"
      "drag_downsample ops k a (fst (snd (c (new_imu_sample ops t d1 d2 v1 v2)))) s4 = Inr s'"
  using assms
  by (auto simp: setIMUData_def Let_def split: prod.splits if_splits sum.splits)

lemma setIMUData_frame:
  assumes "setIMUData ops k init c a t d1 d2 v1 v2 s = Inr s'"
  shows "s' = (imu_init init t s)
           \<lparr>time_last_imu := t,
            dt_imu_avg := dt_imu_avg (imu_dt_avg ops t (imu_init init t s)),
            imu_ticks := imu_ticks s', vibe_metrics := vibe_metrics s',
            delta_ang_prev := v1, delta_vel_prev := v2,
            member_imu_sample_new := snd (snd (c (new_imu_sample ops t d1 d2 v1 v2))),
            imu_buffer := imu_buffer s', imu_updated := imu_updated s',
            imu_sample_delayed := imu_sample_delayed s',
            min_obs_interval_us := min_obs_interval_us s',
            drag_buffer := drag_buffer s', drag_buffer_fail := drag_buffer_fail s',
            drag_sample_count := drag_sample_count s',
            drag_down_sampled := drag_down_sampled s',
            drag_sample_time_dt := drag_sample_time_dt s'\<rparr>"
proof -
  let ?x = "new_imu_sample ops t d1 d2 v1 v2"
  let ?s0 = "imu_init init t s"
  obtain n m where e2: "imu_vibe ops ?x (imu_dt_avg ops t ?s0) =
      ?s0\<lparr>time_last_imu := t, dt_imu_avg := dt_imu_avg (imu_dt_avg ops t ?s0),
          imu_ticks := n, vibe_metrics := m, delta_ang_prev := v1, delta_vel_prev := v2\<rparr>"
  proof -
    have "imu_vibe ops ?x (imu_dt_avg ops t ?s0) =
      ?s0\<lparr>time_last_imu := t, dt_imu_avg := dt_imu_avg (imu_dt_avg ops t ?s0),
          imu_ticks := imu_ticks (imu_dt_avg ops t ?s0) + 1,
          vibe_metrics := vibe_metrics (imu_vibe ops ?x (imu_dt_avg ops t ?s0)),
          delta_ang_prev := v1, delta_vel_prev := v2\<rparr>"
      by (subst imu_vibe_frame, subst (3) imu_dt_avg_frame) (simp add: new_imu_sample_def)
    then show ?thesis by (rule that)
  qed
  from assms show ?thesis
  proof (cases rule: setIMUData_cases)
    case idle
    then show ?thesis unfolding e2 by simp
  next
    case (stored s4)
    from imu_store_frame [OF stored(2)] obtain d i where e4:
      "s4 = ((imu_vibe ops ?x (imu_dt_avg ops t ?s0))\<lparr>member_imu_sample_new := snd (snd (c ?x))\<rparr>)
         \<lparr>imu_buffer := push (fst (snd (c ?x))) (imu_buffer ((imu_vibe ops ?x (imu_dt_avg ops t ?s0))\<lparr>member_imu_sample_new := snd (snd (c ?x))\<rparr>)),
          imu_ticks := 0, imu_updated := True, imu_sample_delayed := d, min_obs_interval_us := i\<rparr>"
      by (rule that)
    from drag_downsample_frame [OF stored(3)] obtain b f n' ds td where e5:
      "s' = s4\<lparr>drag_buffer := b, drag_buffer_fail := f, drag_sample_count := n',
               drag_down_sampled := ds, drag_sample_time_dt := td\<rparr>"
      by (rule that)
    show ?thesis unfolding e5 e4 e2 by simp
  qed
qed

lemma setIMUData_initialised:
  assumes "setIMUData ops k init c a t d1 d2 v1 v2 s = Inr s'"
  shows "initialised s'"
  by (subst setIMUData_frame [OF assms]) (simp add: imu_init_def)

lemma setIMUData_dt_imu_avg:
  assumes "setIMUData ops k init c a t d1 d2 v1 v2 s = Inr s'"
  shows "dt_imu_avg s' = dt_imu_avg (imu_dt_avg ops t (imu_init init t s))"
    and "time_last_imu s' = t"
  by (subst setIMUData_frame [OF assms], simp)+

section \<open>What the initialisation changes\<close>

lemma buffer_lengths_frame:
  assumes "buffer_lengths k s = Inr s1"
  shows "s1 = s\<lparr>imu_buffer_length := imu_buffer_length s1, obs_buffer_length := obs_buffer_length s1\<rparr>"
  using assms by (auto simp: buffer_lengths_def Let_def split: if_splits)

lemma allocate_imu_output_frame:
  assumes "allocate_imu_output o1 o2 o3 s = (ok, s2)"
  shows "s2 = s\<lparr>imu_buffer := imu_buffer s2, output_buffer := output_buffer s2,
               output_vert_buffer := output_vert_buffer s2\<rparr>"
  using assms by (auto simp: allocate_imu_output_def allocate_def Let_def split: if_splits)

lemma allocate_imu_output_all_ok: "fst (allocate_imu_output True True True s)"
  by (simp add: allocate_imu_output_def allocate_def Let_def)

lemma initialise_interface_success:
  assumes "initialise_interface ops k o1 o2 o3 ts s = Inr (True, s')"
  obtains s2 where "s' = reset_interface ops ts s2"
    and "s2 = s\<lparr>imu_buffer_length := imu_buffer_length s2, obs_buffer_length := obs_buffer_length s2,
                imu_buffer := imu_buffer s2, output_buffer := output_buffer s2,
                output_vert_buffer := output_vert_buffer s2\<rparr>"
proof -
  from assms obtain s1 where s1: "buffer_lengths k s = Inr s1"
    by (auto simp: initialise_interface_def split: sum.splits)
  obtain ok s2 where al: "allocate_imu_output o1 o2 o3 s1 = (ok, s2)"
    by (cases "allocate_imu_output o1 o2 o3 s1") auto
  from assms s1 al have r: "s' = reset_interface ops ts s2"
    by (auto simp: initialise_interface_def split: if_splits)
  from buffer_lengths_frame [OF s1] obtain i ob where e1:
    "s1 = s\<lparr>imu_buffer_length := i, obs_buffer_length := ob\<rparr>" by (rule that)
  from allocate_imu_output_frame [OF al] obtain b1 b2 b3 where e2:
    "s2 = s1\<lparr>imu_buffer := b1, output_buffer := b2, output_vert_buffer := b3\<rparr>" by (rule that)
  have "s2 = s\<lparr>imu_buffer_length := imu_buffer_length s2, obs_buffer_length := obs_buffer_length s2,
                imu_buffer := imu_buffer s2, output_buffer := output_buffer s2,
                output_vert_buffer := output_vert_buffer s2\<rparr>"
    unfolding e2 e1 by simp
  with r show ?thesis by (rule that)
qed

lemma initialise_interface_all_ok:
  assumes "FILTER_UPDATE_PERIOD_MS k \<noteq> 0" and "sensor_interval_min_ms (params s) \<noteq> 0"
  shows "\<exists>s'. initialise_interface ops k True True True ts s = Inr (True, s')"
proof -
  from buffer_lengths_Inr [OF assms] obtain s1 where s1: "buffer_lengths k s = Inr s1" by blast
  obtain ok s2 where al: "allocate_imu_output True True True s1 = (ok, s2)"
    by (cases "allocate_imu_output True True True s1") auto
  with allocate_imu_output_all_ok [of s1] have "ok" by simp
  with al s1 show ?thesis by (simp add: initialise_interface_def)
qed

lemma init_by_interface_example:
  assumes "params s = example_params"
  shows "initialise_interface exact_ops example_macros True True True ts s
           = Inr (True, init_by_interface ts s)"
proof -
  have "FILTER_UPDATE_PERIOD_MS example_macros \<noteq> 0" by (simp add: example_macros_def)
  moreover have "sensor_interval_min_ms (params s) \<noteq> 0" by (simp add: assms example_params_def)
  ultimately obtain s' where
    r: "initialise_interface exact_ops example_macros True True True ts s = Inr (True, s')"
    using initialise_interface_all_ok by blast
  then show ?thesis by (simp add: init_by_interface_def)
qed

lemma init_by_interface_fields:
  assumes "params s = example_params"
  shows "time_last_imu (init_by_interface ts s) = 0"
    and "dt_imu_avg (init_by_interface ts s) = Fin 0"
    and "\<not> initialised (init_by_interface ts s)"
proof -
  from init_by_interface_example [OF assms, of ts]
  obtain s2 where "init_by_interface ts s = reset_interface exact_ops ts s2"
    by (rule initialise_interface_success)
  then show "time_last_imu (init_by_interface ts s) = 0"
    and "dt_imu_avg (init_by_interface ts s) = Fin 0"
    and "\<not> initialised (init_by_interface ts s)"
    by (simp_all add: reset_interface_def exact_ops_def)
qed

section \<open>C4: the average IMU sample interval\<close>

text \<open>
  C4, with the slip the code makes. A \<^verbatim>\<open>setIMUData\<close> call that returns has stored
  \<^verbatim>\<open>time_usec\<close> in \<^verbatim>\<open>_time_last_imu\<close> and, with \<open>dt\<close> the clamp of
  \<^verbatim>\<open>(time_usec - _time_last_imu) / 1e6\<close> to \<open>[1e-4, 0.02]\<close>, has set \<^verbatim>\<open>_dt_imu_avg\<close> to
  \<^verbatim>\<open>0.8 * _dt_imu_avg + 0.2 * dt\<close>, unless \<^verbatim>\<open>time_usec\<close> is zero. The values on the
  right are those after the first-call initialisation. The claim has the update
  skipped when \<^verbatim>\<open>_time_last_imu\<close> is zero at entry, the value the initialisation
  leaves to mark that no sample came before, and the guard of line 61 is written for
  that; but line 59 has stored \<^verbatim>\<open>time_usec\<close> in \<^verbatim>\<open>_time_last_imu\<close> before the guard
  reads it, so the guard passes on every call with a non-zero time stamp, the first
  one after an initialisation included.
\<close>

theorem C4_dt_imu_avg_update:
  assumes "setIMUData ops k init c a time_usec d1 d2 v1 v2 s = Inr s'"
  shows "dt_imu_avg s' =
           (if 0 < time_usec
            then f_add ops (f_mul ops (f_lit ops 0.8) (dt_imu_avg (imu_init init time_usec s)))
                   (f_mul ops (f_lit ops 0.2)
                      (constrain ops
                         (f_div ops
                            (f_of_int ops (uint (time_usec - time_last_imu (imu_init init time_usec s))))
                            (f_lit ops 1000000))
                         (f_lit ops 0.0001) (f_lit ops 0.02)))
            else dt_imu_avg (imu_init init time_usec s))
         \<and> time_last_imu s' = time_usec"
  using setIMUData_dt_imu_avg [OF assms]
  by (simp add: imu_dt_avg_def imu_dt_def Let_def)

lemma first_imu_call_returns:
  "\<exists>s'. setIMUData exact_ops example_macros init_by_interface not_ready True t 4000 4000 zero3 zero3
      blank = Inr s'"
  by (simp add: setIMUData_def not_ready_def Let_def)

lemma first_imu_call_entry:
  "time_last_imu (imu_init init_by_interface t blank) = 0"
  "dt_imu_avg (imu_init init_by_interface t blank) = Fin 0"
proof -
  have p: "params blank = example_params" by (simp add: blank_def)
  have "\<not> initialised blank" by (simp add: blank_def)
  then have "imu_init init_by_interface t blank = (init_by_interface t blank)\<lparr>initialised := True\<rparr>"
    by (simp add: imu_init_def)
  then show "time_last_imu (imu_init init_by_interface t blank) = 0"
    "dt_imu_avg (imu_init init_by_interface t blank) = Fin 0"
    using init_by_interface_fields [OF p, of t] by simp_all
qed

text \<open>
  The first IMU call of a fresh object at 1 ms, the filter's \<^verbatim>\<open>init\<close> calling
  \<^verbatim>\<open>initialise_interface\<close>: the average goes from 0 to \<open>0.2 * 0.001\<close>.
\<close>

theorem C4_dt_imu_avg_witness:
  "map_sum id dt_imu_avg
     (setIMUData exact_ops example_macros init_by_interface not_ready True 1000 4000 4000 zero3 zero3
        blank) = Inr (Fin (1 / 5000))
   \<and> map_sum id time_last_imu
     (setIMUData exact_ops example_macros init_by_interface not_ready True 1000 4000 4000 zero3 zero3
        blank) = Inr 1000"
proof -
  obtain s' where r: "setIMUData exact_ops example_macros init_by_interface not_ready True 1000 4000
      4000 zero3 zero3 blank = Inr s'"
    using first_imu_call_returns by blast
  from C4_dt_imu_avg_update [OF r]
  have "dt_imu_avg s' = Fin (1 / 5000)" and "time_last_imu s' = 1000"
    by (simp_all add: first_imu_call_entry constrain_def exact_ops_def)
  with r show ?thesis by simp
qed

text \<open>
  The same call at 4 ms: \<^verbatim>\<open>_time_last_imu\<close> is zero on entry and after \<^verbatim>\<open>init\<close>, and
  the call changes \<^verbatim>\<open>_dt_imu_avg\<close> from 0 to \<open>0.2 * 0.004\<close>.
\<close>

theorem C4_first_call_updates_average:
  "time_last_imu blank = 0
   \<and> time_last_imu (imu_init init_by_interface 4000 blank) = 0
   \<and> dt_imu_avg (imu_init init_by_interface 4000 blank) = Fin 0
   \<and> map_sum id dt_imu_avg
        (setIMUData exact_ops example_macros init_by_interface not_ready True 4000 4000 4000 zero3
           zero3 blank) = Inr (Fin (1 / 1250))"
proof -
  obtain s' where r: "setIMUData exact_ops example_macros init_by_interface not_ready True 4000 4000
      4000 zero3 zero3 blank = Inr s'"
    using first_imu_call_returns by blast
  from setIMUData_dt_imu_avg(1) [OF r]
  have "dt_imu_avg s' = Fin (1 / 1250)"
    by (simp add: imu_dt_avg_def imu_dt_def Let_def first_imu_call_entry constrain_def exact_ops_def)
  moreover have "time_last_imu blank = 0" by (simp add: blank_def)
  ultimately show ?thesis using r by (simp add: first_imu_call_entry)
qed

section \<open>C9: the reset by the initialisation\<close>

lemma not_initialised_intake:
  assumes "\<not> initialised s"
  shows "setMagData k a t v3 s = s" "setGpsData ops k a cg mp t g s = s"
    "setBaroData k a t x s = s" "setAirspeedData k a t x y s = s" "setRangeData a t x s = s"
    "setOpticalFlowData ops a u t f s = s" "setExtVisionData a t ev s = s"
    "setAuxVelData k a t v2 w2 s = s"
  using assms
  by (simp_all add: setMagData_def setGpsData_def setBaroData_def setAirspeedData_def
        setRangeData_def setOpticalFlowData_def setExtVisionData_def setAuxVelData_def)

text \<open>
  C9, with the exception the code makes. When \<^verbatim>\<open>initialise_interface\<close> succeeds it has
  set \<^verbatim>\<open>_dt_imu_avg\<close> to zero, the eight time stamps \<^verbatim>\<open>_time_last_imu\<close>, \<^verbatim>\<open>_gps\<close>,
  \<^verbatim>\<open>_mag\<close>, \<^verbatim>\<open>_baro\<close>, \<^verbatim>\<open>_range\<close>, \<^verbatim>\<open>_airspeed\<close>, \<^verbatim>\<open>_optflow\<close> and
  \<^verbatim>\<open>_ext_vision\<close> to zero, the fault status to zero and the delayed IMU sample to zero
  increments at the given time stamp, and it has left \<^verbatim>\<open>_initialised\<close> false: every
  observation intake then leaves the state as it is, and a \<^verbatim>\<open>setIMUData\<close> call that
  returns has set it. \<^verbatim>\<open>_time_last_auxvel\<close> is not reset: it keeps its value.
\<close>

theorem C9_initialise_resets:
  assumes "initialise_interface ops k o1 o2 o3 timestamp s = Inr (True, s')"
  shows "dt_imu_avg s' = f_lit ops 0
     \<and> time_last_imu s' = 0 \<and> time_last_gps s' = 0 \<and> time_last_mag s' = 0
     \<and> time_last_baro s' = 0 \<and> time_last_range s' = 0 \<and> time_last_airspeed s' = 0
     \<and> time_last_optflow s' = 0 \<and> time_last_ext_vision s' = 0
     \<and> time_last_auxvel s' = time_last_auxvel s
     \<and> fault_status_value s' = 0
     \<and> imu_sample_delayed s' =
          \<lparr>time_us = timestamp, delta_ang = vec3_zero ops, delta_vel = vec3_zero ops,
           delta_ang_dt = f_lit ops 0, delta_vel_dt = f_lit ops 0\<rparr>
     \<and> \<not> initialised s'
     \<and> setMagData k a t v3 s' = s' \<and> setGpsData ops k a cg mp t g s' = s'
     \<and> setBaroData k a t x s' = s' \<and> setAirspeedData k a t x y s' = s'
     \<and> setRangeData a t x s' = s' \<and> setOpticalFlowData ops a u t f s' = s'
     \<and> setExtVisionData a t ev s' = s' \<and> setAuxVelData k a t v2 w2 s' = s'
     \<and> (\<forall>s''. setIMUData ops k init c a t d1 d2 u1 u2 s' = Inr s'' \<longrightarrow> initialised s'')"
proof -
  from assms obtain s2 where r: "s' = reset_interface ops timestamp s2"
    and f: "s2 = s\<lparr>imu_buffer_length := imu_buffer_length s2, obs_buffer_length := obs_buffer_length s2,
                imu_buffer := imu_buffer s2, output_buffer := output_buffer s2,
                output_vert_buffer := output_vert_buffer s2\<rparr>"
    by (rule initialise_interface_success)
  have aux: "time_last_auxvel s2 = time_last_auxvel s"
    by (subst f) simp
  have n: "\<not> initialised s'" unfolding r by (simp add: reset_interface_def)
  have fields: "dt_imu_avg s' = f_lit ops 0
     \<and> time_last_imu s' = 0 \<and> time_last_gps s' = 0 \<and> time_last_mag s' = 0
     \<and> time_last_baro s' = 0 \<and> time_last_range s' = 0 \<and> time_last_airspeed s' = 0
     \<and> time_last_optflow s' = 0 \<and> time_last_ext_vision s' = 0
     \<and> time_last_auxvel s' = time_last_auxvel s
     \<and> fault_status_value s' = 0
     \<and> imu_sample_delayed s' =
          \<lparr>time_us = timestamp, delta_ang = vec3_zero ops, delta_vel = vec3_zero ops,
           delta_ang_dt = f_lit ops 0, delta_vel_dt = f_lit ops 0\<rparr>"
    unfolding r by (simp add: reset_interface_def aux)
  have imu: "\<forall>s''. setIMUData ops k init c a t d1 d2 u1 u2 s' = Inr s'' \<longrightarrow> initialised s''"
    by (intro allI impI) (rule setIMUData_initialised)
  show ?thesis
    using fields n imu not_initialised_intake [OF n]
    by (simp only: simp_thms)
qed

lemma allocated_params: "params allocated = example_params"
  by (simp add: allocated_def example_defs)

text \<open>
  The initialisation at 7 us of a state in which every sensor's last accepted sample
  was at 1 ms: \<^verbatim>\<open>_time_last_mag\<close> and \<^verbatim>\<open>_time_last_gps\<close> are cleared,
  \<^verbatim>\<open>_time_last_auxvel\<close> still holds 1 ms.
\<close>

theorem C9_auxvel_not_reset:
  "map_sum id fst (initialise_interface exact_ops example_macros True True True 7 allocated) = Inr True
   \<and> time_last_auxvel allocated = 1000
   \<and> time_last_auxvel (init_by_interface 7 allocated) = 1000
   \<and> time_last_mag (init_by_interface 7 allocated) = 0
   \<and> time_last_gps (init_by_interface 7 allocated) = 0
   \<and> \<not> initialised (init_by_interface 7 allocated)"
  using C9_initialise_resets [OF init_by_interface_example [OF allocated_params, of 7]]
    init_by_interface_example [OF allocated_params, of 7]
  by (simp add: allocated_fields)

section \<open>C2: the gyro data of a flow sample\<close>

lemma newest_of_candidates:
  "foldl (\<lambda>b x. if time_us b \<le> time_us x then x else b) c cs \<in> set (c # cs)
   \<and> (\<forall>y \<in> set (c # cs). time_us y \<le> time_us (foldl (\<lambda>b x. if time_us b \<le> time_us x then x else b) c cs))"
proof (induction cs arbitrary: c)
  case Nil
  show ?case by simp
next
  case (Cons x xs)
  show ?case
  proof (cases "time_us c \<le> time_us x")
    case True
    with Cons.IH [of x] show ?thesis by auto
  next
    case False
    with Cons.IH [of c] show ?thesis by auto
  qed
qed

lemma read_first_older_than_Some:
  assumes "read_first_older_than t rb = Some x"
  shows "x \<in> set (entries rb) \<and> time_us x \<le> t
     \<and> (\<forall>y \<in> set (entries rb). time_us y \<le> t \<longrightarrow> time_us y \<le> time_us x)"
proof -
  from assms obtain c cs where f: "filter (\<lambda>x. time_us x \<le> t) (entries rb) = c # cs"
    and x: "x = foldl (\<lambda>b x. if time_us b \<le> time_us x then x else b) c cs"
    by (auto simp: read_first_older_than_def split: list.splits)
  from newest_of_candidates [of c cs] x
  have "x \<in> set (c # cs)" and "\<forall>y \<in> set (c # cs). time_us y \<le> time_us x" by simp_all
  then show ?thesis unfolding f [symmetric] by auto
qed

lemma read_first_older_than_None:
  assumes "read_first_older_than t rb = None"
  shows "\<forall>y \<in> set (entries rb). \<not> time_us y \<le> t"
proof -
  from assms have "filter (\<lambda>x. time_us x \<le> t) (entries rb) = []"
    by (auto simp: read_first_older_than_def split: list.splits)
  then show ?thesis by (simp add: filter_empty_conv)
qed

lemma flow_pushed:
  assumes "history (flow_buffer (setOpticalFlowData ops a uninit t flow s)) \<noteq> history (flow_buffer s)"
    and "history (flow_buffer (setOpticalFlowData ops a uninit t flow s)) \<noteq> []"
  shows "\<exists>s1. last (history (flow_buffer (setOpticalFlowData ops a uninit t flow s)))
             = optflow_sample ops uninit t flow s1
           \<and> imu_buffer s1 = imu_buffer s \<and> params s1 = params s"
  using assms
  by (auto simp: setOpticalFlowData_def Let_def allocate_def push_def split: if_splits)

lemma optflow_sample_gyroXYZ:
  assumes "imu_buffer s1 = imu_buffer s" and "params s1 = params s"
    and "gyrodata flow = (g0, g1, g2)"
    and "delta_ang (flow_matching_imu uninit t flow s) = (a0, a1, a2)"
  shows "gyroXYZ (optflow_sample ops uninit t flow s1) =
         (if \<not> f_isfinite ops g0 \<and> \<not> f_isfinite ops g1 \<and> \<not> f_isfinite ops g2
          then (f_mul ops (f_div ops a0 (delta_ang_dt (flow_matching_imu uninit t flow s)))
                  (delta_ang_dt (flow_matching_imu uninit t flow s)),
                f_mul ops (f_div ops a1 (delta_ang_dt (flow_matching_imu uninit t flow s)))
                  (delta_ang_dt (flow_matching_imu uninit t flow s)),
                f_div ops a2 (delta_ang_dt (flow_matching_imu uninit t flow s)))
          else (f_neg ops g0, f_neg ops g1, f_neg ops g2))"
proof -
  have m: "flow_matching_imu uninit t flow s1 = flow_matching_imu uninit t flow s"
    by (simp add: flow_matching_imu_def flow_time_us_def assms(1,2))
  show ?thesis
    by (simp add: optflow_sample_def Let_def m assms(3,4) flow_no_gyro_def)
qed

text \<open>
  C2, as amended. In a flow sample that \<^verbatim>\<open>setOpticalFlowData\<close> pushes, the fallback is
  taken exactly when all three components of the driver's \<^verbatim>\<open>gyrodata\<close> are
  non-finite. Then the rate is \<^verbatim>\<open>delta_ang / delta_ang_dt\<close> of the matching IMU sample
  and \<^verbatim>\<open>gyroXYZ\<close> holds its z component, and its x and y components multiplied by
  \<^verbatim>\<open>delta_ang_dt\<close> again (lines 431 and 432). With a finite component,
  \<^verbatim>\<open>gyroXYZ = -gyrodata\<close>. The matching sample is the one \<^verbatim>\<open>read_first_older_than\<close>
  finds for the mid-point of the flow integration: a retained IMU sample not newer
  than the mid-point and not older than any other such sample; when there is none the
  local variable keeps its uninitialised content.
\<close>

theorem C2_gyro_source:
  assumes "s' = setOpticalFlowData ops a uninit t flow s"
    and "history (flow_buffer s') \<noteq> history (flow_buffer s)"
    and "history (flow_buffer s') \<noteq> []"
    and "gyrodata flow = (g0, g1, g2)"
    and "m = flow_matching_imu uninit t flow s"
    and "delta_ang m = (a0, a1, a2)"
  shows "gyroXYZ (last (history (flow_buffer s'))) =
         (if \<not> f_isfinite ops g0 \<and> \<not> f_isfinite ops g1 \<and> \<not> f_isfinite ops g2
          then (f_mul ops (f_div ops a0 (delta_ang_dt m)) (delta_ang_dt m),
                f_mul ops (f_div ops a1 (delta_ang_dt m)) (delta_ang_dt m),
                f_div ops a2 (delta_ang_dt m))
          else (f_neg ops g0, f_neg ops g1, f_neg ops g2))
     \<and> (m = uninit \<and> (\<forall>y \<in> set (entries (imu_buffer s)). \<not> time_us y \<le> flow_time_us t flow s)
        \<or> m \<in> set (entries (imu_buffer s)) \<and> time_us m \<le> flow_time_us t flow s
          \<and> (\<forall>y \<in> set (entries (imu_buffer s)).
                time_us y \<le> flow_time_us t flow s \<longrightarrow> time_us y \<le> time_us m))"
proof
  from flow_pushed [of ops a uninit t flow s] assms(1-3)
  obtain s1 where l: "last (history (flow_buffer s')) = optflow_sample ops uninit t flow s1"
    and f: "imu_buffer s1 = imu_buffer s" "params s1 = params s"
    by auto
  show "gyroXYZ (last (history (flow_buffer s'))) =
         (if \<not> f_isfinite ops g0 \<and> \<not> f_isfinite ops g1 \<and> \<not> f_isfinite ops g2
          then (f_mul ops (f_div ops a0 (delta_ang_dt m)) (delta_ang_dt m),
                f_mul ops (f_div ops a1 (delta_ang_dt m)) (delta_ang_dt m),
                f_div ops a2 (delta_ang_dt m))
          else (f_neg ops g0, f_neg ops g1, f_neg ops g2))"
    unfolding l assms(5)
    by (rule optflow_sample_gyroXYZ [OF f assms(4)]) (use assms(5,6) in simp)
  show "m = uninit \<and> (\<forall>y \<in> set (entries (imu_buffer s)). \<not> time_us y \<le> flow_time_us t flow s)
        \<or> m \<in> set (entries (imu_buffer s)) \<and> time_us m \<le> flow_time_us t flow s
          \<and> (\<forall>y \<in> set (entries (imu_buffer s)).
                time_us y \<le> flow_time_us t flow s \<longrightarrow> time_us y \<le> time_us m)"
  proof (cases "read_first_older_than (flow_time_us t flow s) (imu_buffer s)")
    case None
    then have "m = uninit" by (simp add: assms(5) flow_matching_imu_def)
    with read_first_older_than_None [OF None] show ?thesis by simp
  next
    case (Some x)
    then have "m = x" by (simp add: assms(5) flow_matching_imu_def)
    with read_first_older_than_Some [OF Some] show ?thesis by simp
  qed
qed

lemma flow_ready_fields:
  "initialised flow_ready" "\<not> flow_buffer_fail flow_ready" "\<not> in_air flow_ready"
  "get_length (flow_buffer flow_ready) = 14" "obs_buffer_length flow_ready = 14"
  "time_last_optflow flow_ready = 1000" "min_obs_interval_us flow_ready = 20000"
  "history (flow_buffer flow_ready) = []" "entries (imu_buffer flow_ready) = [turning]"
  "flow_delay_ms (params flow_ready) = 5"
  by (simp_all add: flow_ready_def allocated_def example_defs get_length_def entries_def)

lemma flow_ready_matching:
  "flow_matching_imu (imu_at 0) 100000 example_flow flow_ready = turning"
  "flow_matching_imu (imu_at 0) 100000 no_gyro_flow flow_ready = turning"
  by (simp_all add: flow_matching_imu_def read_first_older_than_def flow_ready_fields
        flow_time_us_def delay_us_def turning_def example_flow_def no_gyro_flow_def)

lemma flow_ready_accepts:
  "flow_buffer (setOpticalFlowData exact_ops True (imu_at 0) 100000 flow flow_ready)
     = push (optflow_sample exact_ops (imu_at 0) 100000 flow flow_ready) (flow_buffer flow_ready)"
  by (simp add: setOpticalFlowData_def flow_ready_fields flow_accepted_def)

text \<open>
  Scenario S4 of the spec: no gyro data, and a matching IMU sample with a rotation of
  0.01 rad in 0.01 s. The rate is \<open>(1, 0, 0)\<close>; the sample stores \<open>(0.01, 0, 0)\<close>.
\<close>

theorem C2_gyro_source_witness:
  "gyroXYZ (last (history (flow_buffer
      (setOpticalFlowData exact_ops True (imu_at 0) 100000 no_gyro_flow flow_ready))))
     = (Fin (1 / 100), Fin 0, Fin 0)
   \<and> turning \<in> set (entries (imu_buffer flow_ready))
   \<and> time_us turning \<le> flow_time_us 100000 no_gyro_flow flow_ready"
proof -
  have h2: "history (flow_buffer (setOpticalFlowData exact_ops True (imu_at 0) 100000 no_gyro_flow
      flow_ready)) \<noteq> history (flow_buffer flow_ready)"
    and h3: "history (flow_buffer (setOpticalFlowData exact_ops True (imu_at 0) 100000 no_gyro_flow
      flow_ready)) \<noteq> []"
    by (simp_all add: flow_ready_accepts push_def)
  have h4: "gyrodata no_gyro_flow = (NonFinite, NonFinite, NonFinite)"
    by (simp add: no_gyro_flow_def)
  have h5: "turning = flow_matching_imu (imu_at 0) 100000 no_gyro_flow flow_ready"
    by (simp add: flow_ready_matching)
  have h6: "delta_ang turning = (Fin 0.01, Fin 0, Fin 0)" by (simp add: turning_def)
  have u: "turning \<noteq> imu_at 0" by (simp add: turning_def imu_at_def)
  from C2_gyro_source [OF refl h2 h3 h4 h5 h6] u show ?thesis
    by (simp add: exact_ops_def turning_def)
qed

text \<open>
  The claim as stated fails: the x component of \<open>example_flow\<close> is not finite, the rate
  of the matching IMU sample is \<open>(1, 0, 0)\<close>, and the sample stores \<^verbatim>\<open>-gyrodata\<close>.
\<close>

theorem C2_any_component_counterexample:
  "\<not> f_isfinite exact_ops (fst (gyrodata example_flow))
   \<and> vec3_div exact_ops (delta_ang (flow_matching_imu (imu_at 0) 100000 example_flow flow_ready))
       (delta_ang_dt (flow_matching_imu (imu_at 0) 100000 example_flow flow_ready))
     = (Fin 1, Fin 0, Fin 0)
   \<and> gyroXYZ (last (history (flow_buffer
        (setOpticalFlowData exact_ops True (imu_at 0) 100000 example_flow flow_ready))))
     = (NonFinite, Fin (- 1), Fin (- 2))"
proof -
  have "\<not> f_isfinite exact_ops (fst (gyrodata example_flow))"
    by (simp add: example_flow_def exact_ops_def)
  moreover have "vec3_div exact_ops (delta_ang turning) (delta_ang_dt turning) = (Fin 1, Fin 0, Fin 0)"
    by (simp add: turning_def exact_ops_def)
  moreover have "gyroXYZ (optflow_sample exact_ops (imu_at 0) 100000 example_flow flow_ready)
      = (NonFinite, Fin (- 1), Fin (- 2))"
    unfolding optflow_sample_def Let_def flow_ready_matching
    by (simp add: flow_no_gyro_def example_flow_def exact_ops_def)
  ultimately show ?thesis
    by (simp add: flow_ready_accepts push_def flow_ready_matching)
qed

section \<open>What each observation intake changes\<close>

lemma setMagData_frame:
  "setMagData k a t d s =
     s\<lparr>mag_buffer := mag_buffer (setMagData k a t d s),
       mag_buffer_fail := mag_buffer_fail (setMagData k a t d s),
       time_last_mag := time_last_mag (setMagData k a t d s)\<rparr>"
  by (auto simp: setMagData_def Let_def allocate_def)

lemma setGpsData_frame:
  "setGpsData ops k a cg mp t g s =
     s\<lparr>gps_buffer := gps_buffer (setGpsData ops k a cg mp t g s),
       gps_buffer_fail := gps_buffer_fail (setGpsData ops k a cg mp t g s),
       time_last_gps := time_last_gps (setGpsData ops k a cg mp t g s),
       gps_speed_valid := gps_speed_valid (setGpsData ops k a cg mp t g s)\<rparr>"
  by (auto simp: setGpsData_def Let_def allocate_def)

lemma setBaroData_frame:
  "setBaroData k a t d s =
     s\<lparr>baro_buffer := baro_buffer (setBaroData k a t d s),
       baro_buffer_fail := baro_buffer_fail (setBaroData k a t d s),
       time_last_baro := time_last_baro (setBaroData k a t d s)\<rparr>"
  by (auto simp: setBaroData_def Let_def allocate_def)

lemma setAirspeedData_frame:
  "setAirspeedData k a t x y s =
     s\<lparr>airspeed_buffer := airspeed_buffer (setAirspeedData k a t x y s),
       airspeed_buffer_fail := airspeed_buffer_fail (setAirspeedData k a t x y s),
       time_last_airspeed := time_last_airspeed (setAirspeedData k a t x y s)\<rparr>"
  by (auto simp: setAirspeedData_def Let_def allocate_def)

lemma setRangeData_frame:
  "setRangeData a t d s =
     s\<lparr>range_buffer := range_buffer (setRangeData a t d s),
       range_buffer_fail := range_buffer_fail (setRangeData a t d s),
       time_last_range := time_last_range (setRangeData a t d s)\<rparr>"
  by (auto simp: setRangeData_def Let_def allocate_def)

lemma setOpticalFlowData_frame:
  "setOpticalFlowData ops a u t f s =
     s\<lparr>flow_buffer := flow_buffer (setOpticalFlowData ops a u t f s),
       flow_buffer_fail := flow_buffer_fail (setOpticalFlowData ops a u t f s),
       time_last_optflow := time_last_optflow (setOpticalFlowData ops a u t f s)\<rparr>"
  by (auto simp: setOpticalFlowData_def Let_def allocate_def)

lemma setExtVisionData_frame:
  "setExtVisionData a t e s =
     s\<lparr>ext_vision_buffer := ext_vision_buffer (setExtVisionData a t e s),
       ev_buffer_fail := ev_buffer_fail (setExtVisionData a t e s),
       time_last_ext_vision := time_last_ext_vision (setExtVisionData a t e s)\<rparr>"
  by (auto simp: setExtVisionData_def Let_def allocate_def)

lemma setAuxVelData_frame:
  "setAuxVelData k a t d v s =
     s\<lparr>auxvel_buffer := auxvel_buffer (setAuxVelData k a t d v s),
       auxvel_buffer_fail := auxvel_buffer_fail (setAuxVelData k a t d v s),
       time_last_auxvel := time_last_auxvel (setAuxVelData k a t d v s)\<rparr>"
  by (auto simp: setAuxVelData_def Let_def allocate_def)

lemma imu_init_initialised: "initialised s \<Longrightarrow> imu_init init t s = s"
  by (simp add: imu_init_def)

section \<open>C10: a failed allocation of the drag buffer\<close>

lemma imu_dt_avg_ticks: "imu_ticks (imu_dt_avg ops t s) = imu_ticks s"
  by (simp add: imu_dt_avg_def Let_def)

lemma imu_prelude_frame:
  "(imu_vibe ops x (imu_dt_avg ops t s))\<lparr>member_imu_sample_new := m\<rparr> =
      s\<lparr>time_last_imu := t, dt_imu_avg := dt_imu_avg (imu_dt_avg ops t s),
        imu_ticks := imu_ticks s + 1,
        vibe_metrics := vibe_metrics (imu_vibe ops x (imu_dt_avg ops t s)),
        delta_ang_prev := delta_ang x, delta_vel_prev := delta_vel x,
        member_imu_sample_new := m\<rparr>"
  by (subst imu_vibe_frame, subst (3) imu_dt_avg_frame) (simp add: imu_dt_avg_ticks)

lemma get_oldest_push:
  assumes "0 < capacity rb"
  shows "\<exists>y. get_oldest (push x rb) = Some y"
proof -
  have "length (history rb) + 1 - capacity rb < length (history rb @ [x])"
    using assms by simp
  then have "entries (push x rb) \<noteq> []"
    by (simp add: entries_def push_def)
  then show ?thesis by (cases "entries (push x rb)") (simp_all add: get_oldest_def)
qed

lemma imu_store_returns:
  assumes "0 < capacity (imu_buffer s)"
    and "(word_of_int (int (obs_buffer_length s) - 1) :: u64) \<noteq> 0"
  shows "\<exists>s4. imu_store x s = Inr s4
     \<and> imu_buffer s4 = push x (imu_buffer s) \<and> imu_updated s4
     \<and> get_oldest (imu_buffer s4) = Some (imu_sample_delayed s4)
     \<and> min_obs_interval_us s4 =
          (time_us (member_imu_sample_new s) - time_us (imu_sample_delayed s4))
            div word_of_int (int (obs_buffer_length s) - 1)"
proof -
  from get_oldest_push [OF assms(1), of x] obtain y where
    "get_oldest (push x (imu_buffer s)) = Some y" by blast
  then show ?thesis using assms(2) by (simp add: imu_store_def Let_def)
qed

lemma obs_divisor_nonzero:
  assumes "n \<noteq> 1" and "n < 2 ^ 64"
  shows "(word_of_int (int n - 1) :: u64) \<noteq> 0"
proof (cases "n = 0")
  case True
  then show ?thesis by simp
next
  case False
  with assms have "0 < int n - 1" "int n - 1 < 2 ^ 64" by simp_all
  then have "\<not> 2 ^ 64 dvd (int n - 1)" by (simp add: zdvd_not_zless)
  moreover have "(word_of_int (int n - 1) :: u64) = 0 \<longleftrightarrow> 2 ^ LENGTH(64) dvd (int n - 1)"
    by (rule word_of_int_eq_0_iff)
  ultimately show ?thesis by simp
qed

lemma drag_downsample_failed: "drag_buffer_fail s \<Longrightarrow> drag_downsample ops k a x s = Inr s"
  by (simp add: drag_downsample_def)

lemma drag_downsample_allocation_fails:
  assumes "(fusion_mode (params s) AND MASK_USE_DRAG k) \<noteq> 0" and "\<not> drag_buffer_fail s"
    and "get_length (drag_buffer s) < obs_buffer_length s"
  shows "drag_downsample ops k False x s = Inr (s\<lparr>drag_buffer_fail := True\<rparr>)"
  using assms by (simp add: drag_downsample_def allocate_def Let_def)

lemma setIMUData_drag_failed:
  assumes "initialised s" and "drag_buffer_fail s"
    and "setIMUData ops k init c a t d1 d2 v1 v2 s = Inr s'"
  shows "initialised s' \<and> drag_buffer_fail s' \<and> drag_buffer s' = drag_buffer s
     \<and> drag_sample_count s' = drag_sample_count s \<and> drag_down_sampled s' = drag_down_sampled s
     \<and> drag_sample_time_dt s' = drag_sample_time_dt s"
  using assms(3)
proof (cases rule: setIMUData_cases)
  case idle
  show ?thesis
    unfolding idle(2) imu_init_initialised [OF assms(1)]
    by (subst imu_vibe_frame, subst (3) imu_dt_avg_frame, simp add: assms(1,2))+
next
  case (stored s4)
  note st = stored(2) [unfolded imu_init_initialised [OF assms(1)] imu_prelude_frame]
  from imu_store_frame [OF st] obtain d i where e4: "s4 = s
      \<lparr>time_last_imu := t, dt_imu_avg := dt_imu_avg (imu_dt_avg ops t s),
        imu_ticks := imu_ticks s + 1,
        vibe_metrics := vibe_metrics (imu_vibe ops (new_imu_sample ops t d1 d2 v1 v2) (imu_dt_avg ops t s)),
        delta_ang_prev := delta_ang (new_imu_sample ops t d1 d2 v1 v2),
        delta_vel_prev := delta_vel (new_imu_sample ops t d1 d2 v1 v2),
        member_imu_sample_new := snd (snd (c (new_imu_sample ops t d1 d2 v1 v2))),
        imu_buffer := push (fst (snd (c (new_imu_sample ops t d1 d2 v1 v2)))) (imu_buffer s),
        imu_ticks := 0, imu_updated := True, imu_sample_delayed := d, min_obs_interval_us := i\<rparr>"
    by (rule_tac that) simp
  have "drag_buffer_fail s4" unfolding e4 by (simp add: assms(2))
  with stored(3) have "s' = s4" by (simp add: drag_downsample_failed)
  then show ?thesis unfolding e4 by (simp add: assms(1,2))
qed

lemma obs_intake_keeps_drag:
  "drag_state (setMagData k a t v3 s) = drag_state s"
  "drag_state (setGpsData ops k a cg mp t g s) = drag_state s"
  "drag_state (setBaroData k a t x s) = drag_state s"
  "drag_state (setAirspeedData k a t x y s) = drag_state s"
  "drag_state (setRangeData a t x s) = drag_state s"
  "drag_state (setOpticalFlowData ops a u t f s) = drag_state s"
  "drag_state (setExtVisionData a t ev s) = drag_state s"
  "drag_state (setAuxVelData k a t v2 w2 s) = drag_state s"
  by (subst setMagData_frame setGpsData_frame setBaroData_frame setAirspeedData_frame
        setRangeData_frame setOpticalFlowData_frame setExtVisionData_frame setAuxVelData_frame,
      simp add: drag_state_def)+

lemma obs_intake_keeps_initialised:
  "initialised (setMagData k a t v3 s) = initialised s"
  "initialised (setGpsData ops k a cg mp t g s) = initialised s"
  "initialised (setBaroData k a t x s) = initialised s"
  "initialised (setAirspeedData k a t x y s) = initialised s"
  "initialised (setRangeData a t x s) = initialised s"
  "initialised (setOpticalFlowData ops a u t f s) = initialised s"
  "initialised (setExtVisionData a t ev s) = initialised s"
  "initialised (setAuxVelData k a t v2 w2 s) = initialised s"
  by (subst setMagData_frame setGpsData_frame setBaroData_frame setAirspeedData_frame
        setRangeData_frame setOpticalFlowData_frame setExtVisionData_frame setAuxVelData_frame,
      simp)+

lemma half_period_mask_drag: "half_period_us (k\<lparr>MASK_USE_DRAG := m\<rparr>) = half_period_us k"
  by (simp add: half_period_us_def)

lemma mask_drag_fields:
  "MASK_USE_GPS (k\<lparr>MASK_USE_DRAG := m\<rparr>) = MASK_USE_GPS k"
  "VDIST_SENSOR_GPS (k\<lparr>MASK_USE_DRAG := m\<rparr>) = VDIST_SENSOR_GPS k"
  by simp_all

lemma obs_intake_mask_drag:
  "setMagData (k\<lparr>MASK_USE_DRAG := m\<rparr>) a t v3 s = setMagData k a t v3 s"
  "setGpsData ops (k\<lparr>MASK_USE_DRAG := m\<rparr>) a cg mp t g s = setGpsData ops k a cg mp t g s"
  "setBaroData (k\<lparr>MASK_USE_DRAG := m\<rparr>) a t x s = setBaroData k a t x s"
  "setAirspeedData (k\<lparr>MASK_USE_DRAG := m\<rparr>) a t x y s = setAirspeedData k a t x y s"
  "setAuxVelData (k\<lparr>MASK_USE_DRAG := m\<rparr>) a t v2 w2 s = setAuxVelData k a t v2 w2 s"
  unfolding setMagData_def setGpsData_def setBaroData_def setAirspeedData_def setAuxVelData_def
    half_period_mask_drag mask_drag_fields
  by (rule refl)+

lemma imu_store_keeps:
  assumes "imu_store x s = Inr s'"
  shows "drag_state s' = drag_state s" "initialised s' = initialised s" "params s' = params s"
    "obs_buffer_length s' = obs_buffer_length s" "imu_buffer_length s' = imu_buffer_length s"
    "imu_buffer s' = push x (imu_buffer s)"
  by (subst imu_store_frame [OF assms], simp add: drag_state_def)+

lemma imu_prelude_keeps:
  "drag_state ((imu_vibe ops x (imu_dt_avg ops t s))\<lparr>member_imu_sample_new := m\<rparr>) = drag_state s"
  "initialised ((imu_vibe ops x (imu_dt_avg ops t s))\<lparr>member_imu_sample_new := m\<rparr>) = initialised s"
  "params ((imu_vibe ops x (imu_dt_avg ops t s))\<lparr>member_imu_sample_new := m\<rparr>) = params s"
  "obs_buffer_length ((imu_vibe ops x (imu_dt_avg ops t s))\<lparr>member_imu_sample_new := m\<rparr>)
     = obs_buffer_length s"
  "imu_buffer_length ((imu_vibe ops x (imu_dt_avg ops t s))\<lparr>member_imu_sample_new := m\<rparr>)
     = imu_buffer_length s"
  "imu_buffer ((imu_vibe ops x (imu_dt_avg ops t s))\<lparr>member_imu_sample_new := m\<rparr>) = imu_buffer s"
  "member_imu_sample_new ((imu_vibe ops x (imu_dt_avg ops t s))\<lparr>member_imu_sample_new := m\<rparr>) = m"
  unfolding imu_prelude_frame by (simp_all add: drag_state_def)

lemma setIMUData_mask_drag:
  assumes "initialised s" and "drag_buffer_fail s"
  shows "setIMUData ops (k\<lparr>MASK_USE_DRAG := m\<rparr>) init c a t d1 d2 v1 v2 s
           = setIMUData ops k init c a t d1 d2 v1 v2 s"
proof -
  let ?x = "new_imu_sample ops t d1 d2 v1 v2"
  let ?s3 = "(imu_vibe ops ?x (imu_dt_avg ops t s))\<lparr>member_imu_sample_new := snd (snd (c ?x))\<rparr>"
  have d: "drag_downsample ops k' a y s4 = Inr s4" if "imu_store y ?s3 = Inr s4" for s4 k' y
  proof -
    from imu_store_keeps(1) [OF that] have "drag_state s4 = drag_state s"
      by (simp add: imu_prelude_keeps)
    then have "drag_buffer_fail s4" using assms(2) by (simp add: drag_state_def)
    then show ?thesis by (rule drag_downsample_failed)
  qed
  show ?thesis
  proof (cases "c ?x")
    case (fields rdy y mem)
    show ?thesis
    proof (cases "imu_store y ?s3")
      case (Inl e)
      then show ?thesis
        unfolding setIMUData_def Let_def imu_init_initialised [OF assms(1)] fields
        by simp
    next
      case (Inr s4)
      then have "imu_store y ?s3 = Inr s4" by (simp add: fields)
      from d [OF this] Inr show ?thesis
        unfolding setIMUData_def Let_def imu_init_initialised [OF assms(1)] fields
        by simp
    qed
  qed
qed

lemma intake_drag_failed:
  assumes "initialised s" and "drag_buffer_fail s" and "intake ops k init c s = Inr s'"
  shows "initialised s' \<and> drag_state s' = drag_state s"
proof (cases c)
  case (IMUData x1)
  with assms(3) have "setIMUData ops k init (imu_collect x1) (imu_alloc_ok x1) (imu_time_usec x1)
      (imu_delta_ang_dt x1) (imu_delta_vel_dt x1) (imu_delta_ang x1) (imu_delta_vel x1) s = Inr s'"
    by (simp add: setIMUData_call_def)
  from setIMUData_drag_failed [OF assms(1,2) this] show ?thesis
    by (simp add: drag_state_def assms(2))
qed (use assms in \<open>auto simp: obs_intake_keeps_drag obs_intake_keeps_initialised\<close>)

lemma intake_mask_drag:
  assumes "initialised s" and "drag_buffer_fail s"
  shows "intake ops (k\<lparr>MASK_USE_DRAG := m\<rparr>) init c s = intake ops k init c s"
  by (cases c)
    (simp_all add: obs_intake_mask_drag setIMUData_call_def setIMUData_mask_drag [OF assms])

lemma run_drag_failed:
  assumes "initialised s" and "drag_buffer_fail s"
  shows "run ops (k\<lparr>MASK_USE_DRAG := m\<rparr>) init cs s = run ops k init cs s
     \<and> (\<forall>s'. run ops k init cs s = Inr s' \<longrightarrow> initialised s' \<and> drag_state s' = drag_state s)"
  using assms
proof (induction cs arbitrary: s)
  case Nil
  then show ?case by simp
next
  case (Cons c cs)
  show ?case
  proof (cases "intake ops k init c s")
    case (Inl e)
    then show ?thesis using Cons.prems by (simp add: intake_mask_drag)
  next
    case (Inr s1)
    from intake_drag_failed [OF Cons.prems Inr]
    have i: "initialised s1" and d: "drag_state s1 = drag_state s" by simp_all
    then have "drag_buffer_fail s1" using Cons.prems(2) by (simp add: drag_state_def)
    from Cons.IH [OF i this] Inr d show ?thesis
      using Cons.prems by (simp add: intake_mask_drag)
  qed
qed

lemma capacity_push [simp]: "capacity (push x rb) = capacity rb"
  by (simp add: push_def)

lemma obs_intake_keeps_imu:
  "obs_buffer_length (setMagData k a t v3 s) = obs_buffer_length s"
  "imu_buffer (setMagData k a t v3 s) = imu_buffer s"
  "obs_buffer_length (setGpsData ops k a cg mp t g s) = obs_buffer_length s"
  "imu_buffer (setGpsData ops k a cg mp t g s) = imu_buffer s"
  "obs_buffer_length (setBaroData k a t x s) = obs_buffer_length s"
  "imu_buffer (setBaroData k a t x s) = imu_buffer s"
  "obs_buffer_length (setAirspeedData k a t x y s) = obs_buffer_length s"
  "imu_buffer (setAirspeedData k a t x y s) = imu_buffer s"
  "obs_buffer_length (setRangeData a t x s) = obs_buffer_length s"
  "imu_buffer (setRangeData a t x s) = imu_buffer s"
  "obs_buffer_length (setOpticalFlowData ops a u t f s) = obs_buffer_length s"
  "imu_buffer (setOpticalFlowData ops a u t f s) = imu_buffer s"
  "obs_buffer_length (setExtVisionData a t ev s) = obs_buffer_length s"
  "imu_buffer (setExtVisionData a t ev s) = imu_buffer s"
  "obs_buffer_length (setAuxVelData k a t v2 w2 s) = obs_buffer_length s"
  "imu_buffer (setAuxVelData k a t v2 w2 s) = imu_buffer s"
  by (subst setMagData_frame setGpsData_frame setBaroData_frame setAirspeedData_frame
        setRangeData_frame setOpticalFlowData_frame setExtVisionData_frame setAuxVelData_frame,
      simp)+

lemma later_imu_call_stores:
  assumes "initialised s" and "drag_buffer_fail s" and "0 < capacity (imu_buffer s)"
    and "obs_buffer_length s \<noteq> 1" and "obs_buffer_length s < 2 ^ 64"
    and "c (new_imu_sample ops t d1 d2 v1 v2) = (True, x, mem)"
  shows "\<exists>s'. setIMUData ops k init c a t d1 d2 v1 v2 s = Inr s'
     \<and> imu_buffer s' = push x (imu_buffer s) \<and> imu_updated s'
     \<and> get_oldest (imu_buffer s') = Some (imu_sample_delayed s')
     \<and> min_obs_interval_us s' =
          (time_us mem - time_us (imu_sample_delayed s')) div word_of_int (int (obs_buffer_length s) - 1)
     \<and> time_last_imu s' = t \<and> member_imu_sample_new s' = mem
     \<and> delta_ang_prev s' = v1 \<and> delta_vel_prev s' = v2
     \<and> initialised s' \<and> obs_buffer_length s' = obs_buffer_length s
     \<and> drag_state s' = drag_state s"
proof -
  let ?s3 = "(imu_vibe ops (new_imu_sample ops t d1 d2 v1 v2) (imu_dt_avg ops t s))
               \<lparr>member_imu_sample_new := mem\<rparr>"
  have "0 < capacity (imu_buffer ?s3)"
    and "(word_of_int (int (obs_buffer_length ?s3) - 1) :: u64) \<noteq> 0"
    using assms(3) obs_divisor_nonzero [OF assms(4,5)] by (simp_all add: imu_prelude_keeps)
  from imu_store_returns [OF this, of x]
  obtain s4 where st: "imu_store x ?s3 = Inr s4"
    and b: "imu_buffer s4 = push x (imu_buffer s)" and u: "imu_updated s4"
    and o: "get_oldest (imu_buffer s4) = Some (imu_sample_delayed s4)"
    and i: "min_obs_interval_us s4 =
          (time_us mem - time_us (imu_sample_delayed s4)) div word_of_int (int (obs_buffer_length s) - 1)"
    by (auto simp: imu_prelude_keeps)
  note k4 = imu_store_keeps [OF st, unfolded imu_prelude_keeps]
  have more: "time_last_imu s4 = t" "member_imu_sample_new s4 = mem"
    "delta_ang_prev s4 = v1" "delta_vel_prev s4 = v2"
    by (subst imu_store_frame [OF st [unfolded imu_prelude_frame]], simp add: new_imu_sample_def)+
  have "drag_buffer_fail s4" using k4(1) assms(2) by (simp add: drag_state_def)
  then have "drag_downsample ops k a x s4 = Inr s4" by (rule drag_downsample_failed)
  with st have r: "setIMUData ops k init c a t d1 d2 v1 v2 s = Inr s4"
    unfolding setIMUData_def Let_def imu_init_initialised [OF assms(1)] assms(6) by simp
  show ?thesis
    using r b u o i more k4(1,2,4) assms(1) by simp
qed

lemma later_imu_call_idle:
  assumes "initialised s" and "c (new_imu_sample ops t d1 d2 v1 v2) = (False, x, mem)"
  shows "\<exists>s'. setIMUData ops k init c a t d1 d2 v1 v2 s = Inr s'
     \<and> imu_buffer s' = imu_buffer s \<and> \<not> imu_updated s' \<and> time_last_imu s' = t
     \<and> drag_state s' = drag_state s"
proof -
  let ?s3 = "(imu_vibe ops (new_imu_sample ops t d1 d2 v1 v2) (imu_dt_avg ops t s))
               \<lparr>member_imu_sample_new := mem\<rparr>"
  have r: "setIMUData ops k init c a t d1 d2 v1 v2 s = Inr (?s3\<lparr>imu_updated := False\<rparr>)"
    unfolding setIMUData_def Let_def imu_init_initialised [OF assms(1)] assms(2) by simp
  have "imu_buffer (?s3\<lparr>imu_updated := False\<rparr>) = imu_buffer s"
    "\<not> imu_updated (?s3\<lparr>imu_updated := False\<rparr>)"
    "time_last_imu (?s3\<lparr>imu_updated := False\<rparr>) = t"
    "drag_state (?s3\<lparr>imu_updated := False\<rparr>) = drag_state s"
    unfolding imu_prelude_frame by (simp_all add: drag_state_def)
  with r show ?thesis by simp
qed

lemma setIMUData_keeps_imu:
  assumes "initialised s" and "setIMUData ops k init c a t d1 d2 v1 v2 s = Inr s'"
  shows "obs_buffer_length s' = obs_buffer_length s"
    and "capacity (imu_buffer s') = capacity (imu_buffer s)"
proof -
  show "obs_buffer_length s' = obs_buffer_length s"
    by (subst setIMUData_frame [OF assms(2)]) (simp add: imu_init_initialised [OF assms(1)])
  from assms(2) show "capacity (imu_buffer s') = capacity (imu_buffer s)"
  proof (cases rule: setIMUData_cases)
    case idle
    show ?thesis
      unfolding idle(2) imu_init_initialised [OF assms(1)] imu_prelude_frame by simp
  next
    case (stored s4)
    note st = stored(2) [unfolded imu_init_initialised [OF assms(1)]]
    note k4 = imu_store_keeps [OF st, unfolded imu_prelude_keeps]
    have "imu_buffer s' = imu_buffer s4"
      by (subst drag_downsample_frame [OF stored(3)]) simp
    then show ?thesis by (simp add: k4)
  qed
qed

lemma intake_keeps_imu:
  assumes "initialised s" and "intake ops k init c s = Inr s'"
  shows "initialised s' \<and> obs_buffer_length s' = obs_buffer_length s
     \<and> capacity (imu_buffer s') = capacity (imu_buffer s)"
proof (cases c)
  case (IMUData x1)
  with assms(2) have r: "setIMUData ops k init (imu_collect x1) (imu_alloc_ok x1) (imu_time_usec x1)
      (imu_delta_ang_dt x1) (imu_delta_vel_dt x1) (imu_delta_ang x1) (imu_delta_vel x1) s = Inr s'"
    by (simp add: setIMUData_call_def)
  from setIMUData_keeps_imu [OF assms(1) r] setIMUData_initialised [OF r] show ?thesis by simp
qed (use assms in \<open>auto simp: obs_intake_keeps_imu obs_intake_keeps_initialised\<close>)

lemma run_keeps_imu:
  assumes "initialised s" and "run ops k init cs s = Inr s'"
  shows "initialised s' \<and> obs_buffer_length s' = obs_buffer_length s
     \<and> capacity (imu_buffer s') = capacity (imu_buffer s)"
  using assms
proof (induction cs arbitrary: s)
  case Nil
  then show ?case by simp
next
  case (Cons c cs)
  from Cons.prems(2) obtain s1 where s1: "intake ops k init c s = Inr s1"
    and r: "run ops k init cs s1 = Inr s'"
    by (auto split: sum.splits)
  from intake_keeps_imu [OF Cons.prems(1) s1] Cons.IH [OF _ r] show ?case by simp
qed

text \<open>
  C10. Take a \<^verbatim>\<open>setIMUData\<close> call on an initialised interface with drag fusion enabled,
  the latch clear and the drag buffer shorter than \<^verbatim>\<open>_obs_buffer_length\<close>, in which
  \<^verbatim>\<open>collect_imu\<close> delivers a down-sampled sample and the allocation fails; let the IMU
  buffer be allocated and the observation length be other than 1 (and below \<open>2 ^ 64\<close>),
  so that the push has an oldest sample to read and the interval a divisor. The call
  returns with \<^verbatim>\<open>_drag_buffer_fail\<close> set and with what it did before: the sample is in
  the IMU buffer, \<^verbatim>\<open>_imu_updated\<close> is true, \<^verbatim>\<open>_imu_sample_delayed\<close> is the oldest
  sample of the buffer and \<^verbatim>\<open>_min_obs_interval_us\<close> the new quotient; the drag buffer and
  accumulators are untouched. In every later sequence of intake calls the state of the
  drag down-sampler stays as it is, and every call does what it does with drag fusion
  disabled (the drag bit of the mask cleared). The IMU path goes on as before: after
  any such sequence, a \<^verbatim>\<open>setIMUData\<close> call for which \<^verbatim>\<open>collect_imu\<close> delivers a sample
  returns, whatever the allocator would answer, with that sample pushed to the IMU
  buffer, \<^verbatim>\<open>_imu_updated\<close> set, \<^verbatim>\<open>_imu_sample_delayed\<close> the oldest sample of the buffer,
  \<^verbatim>\<open>_min_obs_interval_us\<close> recomputed, and the time stamp, the new sample and the
  previous delta angle and velocity recorded; a call for which \<^verbatim>\<open>collect_imu\<close> delivers
  nothing returns with the buffer as it was, \<^verbatim>\<open>_imu_updated\<close> clear and the time stamp
  recorded. Neither touches the drag down-sampler.
\<close>

theorem C10_drag_allocation_failure:
  fixes ops :: "'a float_ops"
  assumes "initialised s"
    and "(fusion_mode (params s) AND MASK_USE_DRAG k) \<noteq> 0"
    and "\<not> drag_buffer_fail s"
    and "get_length (drag_buffer s) < obs_buffer_length s"
    and "c (new_imu_sample ops t d1 d2 v1 v2) = (True, x, mem)"
    and "0 < capacity (imu_buffer s)"
    and "obs_buffer_length s \<noteq> 1" and "obs_buffer_length s < 2 ^ 64"
  shows "\<exists>s'. setIMUData ops k init c False t d1 d2 v1 v2 s = Inr s'
     \<and> drag_buffer_fail s'
     \<and> imu_buffer s' = push x (imu_buffer s)
     \<and> imu_updated s'
     \<and> get_oldest (imu_buffer s') = Some (imu_sample_delayed s')
     \<and> min_obs_interval_us s' =
          (time_us mem - time_us (imu_sample_delayed s')) div word_of_int (int (obs_buffer_length s) - 1)
     \<and> drag_buffer s' = drag_buffer s \<and> drag_sample_count s' = drag_sample_count s
     \<and> drag_down_sampled s' = drag_down_sampled s
     \<and> drag_sample_time_dt s' = drag_sample_time_dt s
     \<and> (\<forall>cs s''. run ops k init cs s' = Inr s'' \<longrightarrow> drag_state s'' = drag_state s')
     \<and> (\<forall>cs. run ops k init cs s' = run ops (k\<lparr>MASK_USE_DRAG := 0\<rparr>) init cs s')
     \<and> (\<forall>cs s2 c' a' t' e1 e2 w1 w2 x' mem'.
           run ops k init cs s' = Inr s2 \<and> c' (new_imu_sample ops t' e1 e2 w1 w2) = (True, x', mem')
           \<longrightarrow> (\<exists>s3. setIMUData ops k init c' a' t' e1 e2 w1 w2 s2 = Inr s3
                 \<and> imu_buffer s3 = push x' (imu_buffer s2) \<and> imu_updated s3
                 \<and> get_oldest (imu_buffer s3) = Some (imu_sample_delayed s3)
                 \<and> min_obs_interval_us s3 =
                      (time_us mem' - time_us (imu_sample_delayed s3))
                        div word_of_int (int (obs_buffer_length s) - 1)
                 \<and> time_last_imu s3 = t' \<and> member_imu_sample_new s3 = mem'
                 \<and> delta_ang_prev s3 = w1 \<and> delta_vel_prev s3 = w2
                 \<and> drag_state s3 = drag_state s'))
     \<and> (\<forall>cs s2 c' a' t' e1 e2 w1 w2 x' mem'.
           run ops k init cs s' = Inr s2 \<and> c' (new_imu_sample ops t' e1 e2 w1 w2) = (False, x', mem')
           \<longrightarrow> (\<exists>s3. setIMUData ops k init c' a' t' e1 e2 w1 w2 s2 = Inr s3
                 \<and> imu_buffer s3 = imu_buffer s2 \<and> \<not> imu_updated s3 \<and> time_last_imu s3 = t'
                 \<and> drag_state s3 = drag_state s'))"
proof -
  let ?s3 = "(imu_vibe ops (new_imu_sample ops t d1 d2 v1 v2) (imu_dt_avg ops t s))
               \<lparr>member_imu_sample_new := mem\<rparr>"
  have "0 < capacity (imu_buffer ?s3)"
    and "(word_of_int (int (obs_buffer_length ?s3) - 1) :: u64) \<noteq> 0"
    using assms(6) obs_divisor_nonzero [OF assms(7,8)] by (simp_all add: imu_prelude_keeps)
  from imu_store_returns [OF this, of x]
  obtain s4 where st: "imu_store x ?s3 = Inr s4"
    and b: "imu_buffer s4 = push x (imu_buffer s)" and u: "imu_updated s4"
    and o: "get_oldest (imu_buffer s4) = Some (imu_sample_delayed s4)"
    and i: "min_obs_interval_us s4 =
          (time_us mem - time_us (imu_sample_delayed s4)) div word_of_int (int (obs_buffer_length s) - 1)"
    by (auto simp: imu_prelude_keeps)
  note k4 = imu_store_keeps [OF st, unfolded imu_prelude_keeps]
  have d4: "drag_buffer_fail s4 = drag_buffer_fail s" "drag_buffer s4 = drag_buffer s"
    "drag_sample_count s4 = drag_sample_count s" "drag_down_sampled s4 = drag_down_sampled s"
    "drag_sample_time_dt s4 = drag_sample_time_dt s"
    using k4(1) by (simp_all add: drag_state_def)
  let ?s' = "s4\<lparr>drag_buffer_fail := True\<rparr>"
  have "drag_downsample ops k False x s4 = Inr ?s'"
    by (rule drag_downsample_allocation_fails) (simp_all add: k4 d4 assms(2,3,4))
  with st have r: "setIMUData ops k init c False t d1 d2 v1 v2 s = Inr ?s'"
    unfolding setIMUData_def Let_def imu_init_initialised [OF assms(1)] assms(5) by simp
  have i5: "initialised ?s'" and f5: "drag_buffer_fail ?s'"
    using k4(2) assms(1) by simp_all
  have o5: "obs_buffer_length ?s' = obs_buffer_length s"
    and c5: "capacity (imu_buffer s4) = capacity (imu_buffer s)"
    by (simp_all add: k4 b)
  note later = run_drag_failed [OF i5 f5, where ops = ops and k = k and m = 0 and init = init]
  have l1: "\<forall>cs s''. run ops k init cs ?s' = Inr s'' \<longrightarrow> drag_state s'' = drag_state ?s'"
    using later by blast
  have l2: "\<forall>cs. run ops k init cs ?s' = run ops (k\<lparr>MASK_USE_DRAG := 0\<rparr>) init cs ?s'"
    using later by simp
  have reach: "initialised s2 \<and> drag_buffer_fail s2 \<and> 0 < capacity (imu_buffer s2)
      \<and> obs_buffer_length s2 = obs_buffer_length s \<and> drag_state s2 = drag_state ?s'"
    if "run ops k init cs ?s' = Inr s2" for cs s2
  proof -
    from run_keeps_imu [OF i5 that] have "initialised s2"
      and "obs_buffer_length s2 = obs_buffer_length s"
      and "capacity (imu_buffer s2) = capacity (imu_buffer s)"
      by (simp_all add: o5 c5)
    moreover from l1 that have d: "drag_state s2 = drag_state ?s'" by blast
    then have "drag_buffer_fail s2" by (simp add: drag_state_def)
    ultimately show ?thesis using d assms(6) by simp
  qed
  have l3: "\<forall>cs s2 c' a' t' e1 e2 w1 w2 x' mem'.
           run ops k init cs ?s' = Inr s2 \<and> c' (new_imu_sample ops t' e1 e2 w1 w2) = (True, x', mem')
           \<longrightarrow> (\<exists>s3. setIMUData ops k init c' a' t' e1 e2 w1 w2 s2 = Inr s3
                 \<and> imu_buffer s3 = push x' (imu_buffer s2) \<and> imu_updated s3
                 \<and> get_oldest (imu_buffer s3) = Some (imu_sample_delayed s3)
                 \<and> min_obs_interval_us s3 =
                      (time_us mem' - time_us (imu_sample_delayed s3))
                        div word_of_int (int (obs_buffer_length s) - 1)
                 \<and> time_last_imu s3 = t' \<and> member_imu_sample_new s3 = mem'
                 \<and> delta_ang_prev s3 = w1 \<and> delta_vel_prev s3 = w2
                 \<and> drag_state s3 = drag_state ?s')"
  proof (intro allI impI, elim conjE)
    fix cs s2 a' t' e1 e2 w1 w2 x' mem'
      and c' :: "'a imuSample \<Rightarrow> bool \<times> 'a imuSample \<times> 'a imuSample"
    assume run2: "run ops k init cs ?s' = Inr s2"
      and rdy: "c' (new_imu_sample ops t' e1 e2 w1 w2) = (True, x', mem')"
    from reach [OF run2] have p: "initialised s2" "drag_buffer_fail s2" "0 < capacity (imu_buffer s2)"
      "obs_buffer_length s2 \<noteq> 1" "obs_buffer_length s2 < 2 ^ 64"
      and ob: "obs_buffer_length s2 = obs_buffer_length s" and d: "drag_state s2 = drag_state ?s'"
      using assms(7,8) by simp_all
    from later_imu_call_stores [where c = c' and s = s2 and ops = ops and k = k and init = init and a = a', OF p rdy]
    show "\<exists>s3. setIMUData ops k init c' a' t' e1 e2 w1 w2 s2 = Inr s3
                 \<and> imu_buffer s3 = push x' (imu_buffer s2) \<and> imu_updated s3
                 \<and> get_oldest (imu_buffer s3) = Some (imu_sample_delayed s3)
                 \<and> min_obs_interval_us s3 =
                      (time_us mem' - time_us (imu_sample_delayed s3))
                        div word_of_int (int (obs_buffer_length s) - 1)
                 \<and> time_last_imu s3 = t' \<and> member_imu_sample_new s3 = mem'
                 \<and> delta_ang_prev s3 = w1 \<and> delta_vel_prev s3 = w2
                 \<and> drag_state s3 = drag_state ?s'"
      unfolding ob d by blast
  qed
  have l4: "\<forall>cs s2 c' a' t' e1 e2 w1 w2 x' mem'.
           run ops k init cs ?s' = Inr s2 \<and> c' (new_imu_sample ops t' e1 e2 w1 w2) = (False, x', mem')
           \<longrightarrow> (\<exists>s3. setIMUData ops k init c' a' t' e1 e2 w1 w2 s2 = Inr s3
                 \<and> imu_buffer s3 = imu_buffer s2 \<and> \<not> imu_updated s3 \<and> time_last_imu s3 = t'
                 \<and> drag_state s3 = drag_state ?s')"
  proof (intro allI impI, elim conjE)
    fix cs s2 a' t' e1 e2 w1 w2 x' mem'
      and c' :: "'a imuSample \<Rightarrow> bool \<times> 'a imuSample \<times> 'a imuSample"
    assume run2: "run ops k init cs ?s' = Inr s2"
      and idle: "c' (new_imu_sample ops t' e1 e2 w1 w2) = (False, x', mem')"
    from reach [OF run2] have p: "initialised s2" and d: "drag_state s2 = drag_state ?s'"
      by simp_all
    from later_imu_call_idle [where c = c' and s = s2 and ops = ops and k = k and init = init and a = a', OF p idle]
    show "\<exists>s3. setIMUData ops k init c' a' t' e1 e2 w1 w2 s2 = Inr s3
                 \<and> imu_buffer s3 = imu_buffer s2 \<and> \<not> imu_updated s3 \<and> time_last_imu s3 = t'
                 \<and> drag_state s3 = drag_state ?s'"
      unfolding d by blast
  qed
  show ?thesis
    apply (rule exI [of _ ?s'])
    apply (intro conjI)
                 apply (rule r)
                apply simp
               apply (simp add: b)
              apply (simp add: u)
             apply (simp add: o)
            apply (simp add: i)
           apply (simp add: d4)
          apply (simp add: d4)
         apply (simp add: d4)
        apply (simp add: d4)
       apply (rule l1)
      apply (rule l2)
     apply (rule l3)
    apply (rule l4)
    done
qed

lemma drag_requested_fields:
  "initialised drag_requested" "fusion_mode (params drag_requested) = 33"
  "MASK_USE_DRAG example_macros = 32"
  "\<not> drag_buffer_fail drag_requested" "get_length (drag_buffer drag_requested) = 0"
  "obs_buffer_length drag_requested = 14" "capacity (imu_buffer drag_requested) = 15"
  "imu_buffer drag_requested = \<lparr>capacity = 15, history = []\<rparr>"
  "drag_sample_count drag_requested = 0"
  by (simp_all add: drag_requested_def example_defs get_length_def)

text \<open>
  Two down-sampled IMU samples, at 12 ms and 24 ms, of a running interface with drag
  fusion requested: the allocation of the drag buffer fails at the first, and would
  succeed at the second. Both samples are stored; the drag buffer stays unallocated.
\<close>

theorem C10_drag_allocation_failure_witness:
  "map_sum id drag_buffer_fail
     (run exact_ops example_macros init_by_interface [IMUData (imu_call_at ready False 12000)]
        drag_requested) = Inr True
   \<and> map_sum id imu_updated
     (run exact_ops example_macros init_by_interface [IMUData (imu_call_at ready False 12000)]
        drag_requested) = Inr True
   \<and> map_sum id imu_buffer
     (run exact_ops example_macros init_by_interface [IMUData (imu_call_at ready False 12000)]
        drag_requested)
       = Inr \<lparr>capacity = 15,
              history = [new_imu_sample exact_ops 12000 4000 4000 zero3 (Fin 1, Fin 2, Fin 3)]\<rparr>
   \<and> map_sum id drag_sample_count
     (run exact_ops example_macros init_by_interface [IMUData (imu_call_at ready False 12000)]
        drag_requested) = Inr 0
   \<and> map_sum id imu_buffer
     (run exact_ops example_macros init_by_interface
        [IMUData (imu_call_at ready False 12000), IMUData (imu_call_at ready True 24000)]
        drag_requested)
       = Inr \<lparr>capacity = 15,
              history = [new_imu_sample exact_ops 12000 4000 4000 zero3 (Fin 1, Fin 2, Fin 3),
                         new_imu_sample exact_ops 24000 4000 4000 zero3 (Fin 1, Fin 2, Fin 3)]\<rparr>
   \<and> map_sum id imu_updated
     (run exact_ops example_macros init_by_interface
        [IMUData (imu_call_at ready False 12000), IMUData (imu_call_at ready True 24000)]
        drag_requested) = Inr True
   \<and> map_sum id time_last_imu
     (run exact_ops example_macros init_by_interface
        [IMUData (imu_call_at ready False 12000), IMUData (imu_call_at ready True 24000)]
        drag_requested) = Inr 24000
   \<and> map_sum id drag_buffer_fail
     (run exact_ops example_macros init_by_interface
        [IMUData (imu_call_at ready False 12000), IMUData (imu_call_at ready True 24000)]
        drag_requested) = Inr True
   \<and> map_sum id drag_buffer
     (run exact_ops example_macros init_by_interface
        [IMUData (imu_call_at ready False 12000), IMUData (imu_call_at ready True 24000)]
        drag_requested) = Inr \<lparr>capacity = 0, history = []\<rparr>"
proof -
  let ?v = "(Fin 1, Fin 2, Fin 3)"
  let ?x1 = "new_imu_sample exact_ops 12000 4000 4000 zero3 ?v"
  let ?x2 = "new_imu_sample exact_ops 24000 4000 4000 zero3 ?v"
  have h2: "(fusion_mode (params drag_requested) AND MASK_USE_DRAG example_macros) \<noteq> 0"
    by (simp add: drag_requested_fields)
  have h4: "get_length (drag_buffer drag_requested) < obs_buffer_length drag_requested"
    and h6: "0 < capacity (imu_buffer drag_requested)"
    and h7: "obs_buffer_length drag_requested \<noteq> 1"
    and h8: "obs_buffer_length drag_requested < 2 ^ 64"
    by (simp_all add: drag_requested_fields)
  have h5: "ready ?x1 = (True, ?x1, ?x1)" and g5: "ready ?x2 = (True, ?x2, ?x2)"
    by (simp_all add: ready_def)
  have db: "drag_buffer drag_requested = \<lparr>capacity = 0, history = []\<rparr>"
    by (simp add: drag_requested_def example_defs)
  from C10_drag_allocation_failure [where c = ready and s = drag_requested and k = example_macros
      and ops = exact_ops and init = init_by_interface,
      OF drag_requested_fields(1) h2 drag_requested_fields(4) h4 h5 h6 h7 h8]
  obtain s' where r: "setIMUData exact_ops example_macros init_by_interface ready False 12000 4000 4000
      zero3 ?v drag_requested = Inr s'"
    and f: "drag_buffer_fail s'" and u: "imu_updated s'"
    and b: "imu_buffer s' = push ?x1 (imu_buffer drag_requested)"
    and n: "drag_sample_count s' = drag_sample_count drag_requested"
    and d: "drag_buffer s' = drag_buffer drag_requested"
    and later: "\<forall>cs s2 c' a' t' e1 e2 w1 w2 x' mem'.
           run exact_ops example_macros init_by_interface cs s' = Inr s2
             \<and> c' (new_imu_sample exact_ops t' e1 e2 w1 w2) = (True, x', mem')
           \<longrightarrow> (\<exists>s3. setIMUData exact_ops example_macros init_by_interface c' a' t' e1 e2 w1 w2 s2
                       = Inr s3
                 \<and> imu_buffer s3 = push x' (imu_buffer s2) \<and> imu_updated s3
                 \<and> get_oldest (imu_buffer s3) = Some (imu_sample_delayed s3)
                 \<and> min_obs_interval_us s3 =
                      (time_us mem' - time_us (imu_sample_delayed s3))
                        div word_of_int (int (obs_buffer_length drag_requested) - 1)
                 \<and> time_last_imu s3 = t' \<and> member_imu_sample_new s3 = mem'
                 \<and> delta_ang_prev s3 = w1 \<and> delta_vel_prev s3 = w2
                 \<and> drag_state s3 = drag_state s')"
    by (elim exE conjE) (rule that, assumption+)
  have "run exact_ops example_macros init_by_interface [] s' = Inr s' \<and> ready ?x2 = (True, ?x2, ?x2)"
    using g5 by simp
  from later [rule_format, of "[]" s' ready 24000 4000 4000 zero3 ?v ?x2 ?x2 True, OF this]
  obtain s3 where r3: "setIMUData exact_ops example_macros init_by_interface ready True 24000 4000 4000
      zero3 ?v s' = Inr s3"
    and b3: "imu_buffer s3 = push ?x2 (imu_buffer s')" and u3: "imu_updated s3"
    and t3: "time_last_imu s3 = 24000"
    and d3: "drag_state s3 = drag_state s'"
    by blast
  from d3 f d have "drag_buffer_fail s3" and "drag_buffer s3 = drag_buffer drag_requested"
    by (simp_all add: drag_state_def)
  then show ?thesis
    using u3 t3
    by (simp add: setIMUData_call_def imu_call_at_def r r3 b3 b f u n db drag_requested_fields push_def)
qed

section \<open>C6: the drag down-sampler\<close>



















end
